theory Spec2Isabelle
  imports Complex_Main
begin

section \<open>Python values used by the rate limiter\<close>

text \<open>
  The embedding follows \<^verbatim>\<open>services/rate_limiter.py\<close> and
  \<^verbatim>\<open>services/cache_service.py\<close>. Python integers are \<open>int\<close>. Python floats
  (\<^verbatim>\<open>time.time()\<close>, token counts, \<^verbatim>\<open>last_refill\<close>) are real numbers: every
  finite float is one, and the rounding of float arithmetic is not modelled.
  An exception that leaves a function is a value \<open>Inl e\<close>.
\<close>

datatype py_error = TypeError | ZeroDivisionError | ValueError | KeyError | OverflowError

text \<open>\<^verbatim>\<open>int(x)\<close> on a float truncates toward zero.\<close>

definition py_int :: "real \<Rightarrow> int" where
  "py_int x = (if 0 \<le> x then \<lfloor>x\<rfloor> else \<lceil>x\<rceil>)"

text \<open>\<^verbatim>\<open>str(n)\<close> on an integer: decimal digits, a minus sign when negative.\<close>

definition digit_char :: "nat \<Rightarrow> char" where
  "digit_char d = ''0123456789'' ! d"

fun str_nat :: "nat \<Rightarrow> string" where
  "str_nat n = (if n < 10 then [digit_char n] else str_nat (n div 10) @ [digit_char (n mod 10)])"

declare str_nat.simps [simp del]

definition str_int :: "int \<Rightarrow> string" where
  "str_int i = (if i < 0 then CHR ''-'' # str_nat (nat (- i)) else str_nat (nat i))"

text \<open>
  What the limiter keeps in the cache: a counter (fixed window), a list of timestamps
  (sliding window), or a bucket \<^verbatim>\<open>{"tokens": t, "last_refill": l}\<close> (token bucket).
  The type \<open>'n\<close> is that of the two numbers of a bucket: \<open>real\<close> where float
  arithmetic is read as exact (\<open>cache_value\<close>), typed Python numbers where its rounding
  is followed.
\<close>

datatype 'n py_value = IntV int | ListV "int list" | BucketV 'n 'n

type_synonym cache_value = "real py_value"

text \<open>Python truthiness, as used by \<^verbatim>\<open>cache_service.get(key) or default\<close>.\<close>

fun truthy :: "'n py_value \<Rightarrow> bool" where
  "truthy (IntV n) = (n \<noteq> 0)"
| "truthy (ListV xs) = (xs \<noteq> [])"
| "truthy (BucketV t l) = True"

definition or_default :: "'n py_value option \<Rightarrow> 'n py_value \<Rightarrow> 'n py_value" where
  "or_default got d = (case got of None \<Rightarrow> d | Some v \<Rightarrow> if truthy v then v else d)"

section \<open>The cache service\<close>

record 'v cache_entry =
  entry_value :: 'v
  expires_at :: real

type_synonym 'v cache_dict = "string \<Rightarrow> 'v cache_entry option"

subsection \<open>InMemoryCache\<close>

text \<open>
  \<open>now\<close> is the clock (\<^verbatim>\<open>datetime.utcnow()\<close>, in seconds). A read re-checks the
  expiry and deletes an expired entry. In \<^verbatim>\<open>set\<close>,
  \<^verbatim>\<open>datetime.utcnow() + timedelta(seconds=ttl)\<close> raises \<^verbatim>\<open>OverflowError\<close> when the
  sum leaves the years 1 to 9999; the \<^verbatim>\<open>except\<close> branch logs the error and returns
  \<^verbatim>\<open>False\<close>, and nothing is stored. The two bounds are the first instant of the
  year 1 and the first instant of the year 10000, in seconds since 1970. (The clock is
  a date between them, so a \<open>ttl\<close> that \<^verbatim>\<open>timedelta\<close> itself refuses takes the sum
  out of the bounds as well.)
\<close>

datatype log_event =
  GetFailed string | SetFailed string | DeleteFailed string | IncrementFailed string

definition datetime_min :: real where
  "datetime_min = - 62135596800"

definition datetime_end :: real where
  "datetime_end = 253402300800"

definition InMemoryCache_get :: "real \<Rightarrow> string \<Rightarrow> 'v cache_dict \<Rightarrow> 'v option \<times> 'v cache_dict" where
  "InMemoryCache_get now key c =
     (case c key of
        None \<Rightarrow> (None, c)
      | Some entry \<Rightarrow>
          if expires_at entry > now then (Some (entry_value entry), c)
          else (None, c(key := None)))"

definition InMemoryCache_set ::
  "real \<Rightarrow> string \<Rightarrow> 'v \<Rightarrow> int \<Rightarrow> 'v cache_dict \<Rightarrow> bool \<times> log_event list \<times> 'v cache_dict" where
  "InMemoryCache_set now key v ttl c =
     (let expires = now + of_int ttl in
      if datetime_min \<le> expires \<and> expires < datetime_end
      then (True, [], c(key \<mapsto> \<lparr>entry_value = v, expires_at = expires\<rparr>))
      else (False, [SetFailed key], c))"

definition InMemoryCache_delete :: "string \<Rightarrow> 'v cache_dict \<Rightarrow> bool \<times> 'v cache_dict" where
  "InMemoryCache_delete key c =
     (case c key of None \<Rightarrow> (False, c) | Some entry \<Rightarrow> (True, c(key := None)))"

subsection \<open>RedisCache\<close>

text \<open>
  The Redis server is outside the repository. It is modelled as the same dictionary of
  values with an expiry time; a key past its expiry does not exist. Every method of
  \<^verbatim>\<open>RedisCache\<close> wraps its client call in \<^verbatim>\<open>try ... except Exception\<close>, logs the
  error and returns \<^verbatim>\<open>None\<close>, \<^verbatim>\<open>False\<close> or \<^verbatim>\<open>0\<close>. The flag \<open>fails\<close> says that the
  client call raised (connection lost, timeout); the logged error is returned as a
  \<open>log_event\<close>.
\<close>

definition live :: "real \<Rightarrow> string \<Rightarrow> 'v cache_dict \<Rightarrow> 'v cache_entry option" where
  "live now key c =
     (case c key of
        None \<Rightarrow> None
      | Some entry \<Rightarrow> if expires_at entry > now then Some entry else None)"

definition RedisCache_get ::
  "bool \<Rightarrow> real \<Rightarrow> string \<Rightarrow> 'v cache_dict \<Rightarrow> 'v option \<times> log_event list \<times> 'v cache_dict" where
  "RedisCache_get fails now key c =
     (if fails then (None, [GetFailed key], c)
      else (case live now key c of
              None \<Rightarrow> (None, [], c)
            | Some entry \<Rightarrow> (Some (entry_value entry), [], c)))"

definition RedisCache_set ::
  "bool \<Rightarrow> real \<Rightarrow> string \<Rightarrow> 'v \<Rightarrow> int \<Rightarrow> 'v cache_dict \<Rightarrow> bool \<times> log_event list \<times> 'v cache_dict" where
  "RedisCache_set fails now key v ttl c =
     (if fails then (False, [SetFailed key], c)
      else (True, [], c(key \<mapsto> \<lparr>entry_value = v, expires_at = now + of_int ttl\<rparr>)))"

definition RedisCache_delete ::
  "bool \<Rightarrow> real \<Rightarrow> string \<Rightarrow> 'v cache_dict \<Rightarrow> bool \<times> log_event list \<times> 'v cache_dict" where
  "RedisCache_delete fails now key c =
     (if fails then (False, [DeleteFailed key], c)
      else (case live now key c of
              None \<Rightarrow> (False, [], c(key := None))
            | Some entry \<Rightarrow> (True, [], c(key := None))))"

text \<open>
  \<^verbatim>\<open>increment\<close> pipelines \<^verbatim>\<open>INCR\<close> and \<^verbatim>\<open>EXPIRE\<close>. \<^verbatim>\<open>INCR\<close> creates a missing key
  at \<open>amount\<close>; on a value that is not an integer the server rejects it, the pipeline
  raises, and the method returns 0 (the \<^verbatim>\<open>EXPIRE\<close> of the same pipeline is applied).
\<close>

definition RedisCache_increment ::
  "bool \<Rightarrow> real \<Rightarrow> string \<Rightarrow> int \<Rightarrow> int \<Rightarrow> 'n py_value cache_dict
     \<Rightarrow> int \<times> log_event list \<times> 'n py_value cache_dict" where
  "RedisCache_increment fails now key amount ttl c =
     (if fails then (0, [IncrementFailed key], c)
      else (case live now key c of
              None \<Rightarrow>
                (amount, [], c(key \<mapsto> \<lparr>entry_value = IntV amount, expires_at = now + of_int ttl\<rparr>))
            | Some entry \<Rightarrow>
                (case entry_value entry of
                   IntV n \<Rightarrow>
                     (n + amount, [],
                      c(key \<mapsto> \<lparr>entry_value = IntV (n + amount), expires_at = now + of_int ttl\<rparr>))
                 | ListV xs \<Rightarrow>
                     (0, [IncrementFailed key],
                      c(key \<mapsto> \<lparr>entry_value = ListV xs, expires_at = now + of_int ttl\<rparr>))
                 | BucketV t l \<Rightarrow>
                     (0, [IncrementFailed key],
                      c(key \<mapsto> \<lparr>entry_value = BucketV t l, expires_at = now + of_int ttl\<rparr>)))))"

subsection \<open>CacheService\<close>

text \<open>
  \<open>current_cache\<close> is the backend chosen at initialisation, \<open>contents\<close> what that
  backend holds, \<open>error_log\<close> the errors the cache methods have logged.
\<close>

datatype backend = RedisCache | InMemoryCache

record 'v cache_service =
  current_cache :: backend
  contents :: "'v cache_dict"
  error_log :: "log_event list"

type_synonym CacheService = "cache_value cache_service"

definition CacheService_get ::
  "bool \<Rightarrow> real \<Rightarrow> string \<Rightarrow> 'v cache_service \<Rightarrow> 'v option \<times> 'v cache_service" where
  "CacheService_get fails now key cs =
     (case current_cache cs of
        RedisCache \<Rightarrow>
          (case RedisCache_get fails now key (contents cs) of
             (v, evs, c) \<Rightarrow> (v, cs\<lparr>contents := c, error_log := error_log cs @ evs\<rparr>))
      | InMemoryCache \<Rightarrow>
          (case InMemoryCache_get now key (contents cs) of
             (v, c) \<Rightarrow> (v, cs\<lparr>contents := c\<rparr>)))"

definition CacheService_set ::
  "bool \<Rightarrow> real \<Rightarrow> string \<Rightarrow> 'v \<Rightarrow> int \<Rightarrow> 'v cache_service \<Rightarrow> bool \<times> 'v cache_service" where
  "CacheService_set fails now key v ttl cs =
     (case current_cache cs of
        RedisCache \<Rightarrow>
          (case RedisCache_set fails now key v ttl (contents cs) of
             (ok, evs, c) \<Rightarrow> (ok, cs\<lparr>contents := c, error_log := error_log cs @ evs\<rparr>))
      | InMemoryCache \<Rightarrow>
          (case InMemoryCache_set now key v ttl (contents cs) of
             (ok, evs, c) \<Rightarrow> (ok, cs\<lparr>contents := c, error_log := error_log cs @ evs\<rparr>)))"

definition CacheService_delete ::
  "bool \<Rightarrow> real \<Rightarrow> string \<Rightarrow> 'v cache_service \<Rightarrow> bool \<times> 'v cache_service" where
  "CacheService_delete fails now key cs =
     (case current_cache cs of
        RedisCache \<Rightarrow>
          (case RedisCache_delete fails now key (contents cs) of
             (ok, evs, c) \<Rightarrow> (ok, cs\<lparr>contents := c, error_log := error_log cs @ evs\<rparr>))
      | InMemoryCache \<Rightarrow>
          (case InMemoryCache_delete key (contents cs) of
             (ok, c) \<Rightarrow> (ok, cs\<lparr>contents := c\<rparr>)))"

text \<open>
  A check makes one read and at most one write. \<open>faults\<close> says which of the two Redis
  client calls raise; on the in-memory backend only the overflow in \<^verbatim>\<open>set\<close> fails.
\<close>

record faults =
  get_fails :: bool
  write_fails :: bool

text \<open>
  \<^verbatim>\<open>increment_rate_limit(identifier, window)\<close> puts \<^verbatim>\<open>rate_limit:\<close> in front of the
  key it is given, on both backends. On the in-memory backend it reads, adds one and
  writes back.
\<close>

definition increment_rate_limit ::
  "faults \<Rightarrow> real \<Rightarrow> string \<Rightarrow> int \<Rightarrow> 'n py_value cache_service
     \<Rightarrow> (py_error + int) \<times> 'n py_value cache_service" where
  "increment_rate_limit f now identifier window cs =
     (let cache_key = ''rate_limit:'' @ identifier in
      case current_cache cs of
        RedisCache \<Rightarrow>
          (case RedisCache_increment (write_fails f) now cache_key 1 window (contents cs) of
             (n, evs, c) \<Rightarrow> (Inr n, cs\<lparr>contents := c, error_log := error_log cs @ evs\<rparr>))
      | InMemoryCache \<Rightarrow>
          (case CacheService_get (get_fails f) now cache_key cs of
             (got, cs1) \<Rightarrow>
               (case or_default got (IntV 0) of
                  IntV current \<Rightarrow>
                    (let new_value = current + 1 in
                     case CacheService_set (write_fails f) now cache_key (IntV new_value) window cs1 of
                       (ok, cs2) \<Rightarrow> (Inr new_value, cs2))
                | ListV xs \<Rightarrow> (Inl TypeError, cs1)
                | BucketV t l \<Rightarrow> (Inl TypeError, cs1))))"

section \<open>The rate limiter\<close>

datatype RateLimitStrategy = FIXED_WINDOW | SLIDING_WINDOW | TOKEN_BUCKET

record RateLimit =
  requests :: int
  window :: int
  strategy :: RateLimitStrategy
  burst :: "int option"

record RateLimitResult =
  allowed :: bool
  remaining :: int
  reset_time :: int
  retry_after :: "int option"

text \<open>The two policy tables of \<^verbatim>\<open>RateLimiter.__init__\<close>; every entry is a fixed window.\<close>

definition mk_limit :: "int \<Rightarrow> int \<Rightarrow> RateLimit" where
  "mk_limit n w = \<lparr>requests = n, window = w, strategy = FIXED_WINDOW, burst = None\<rparr>"

definition default_limits :: "string \<Rightarrow> RateLimit option" where
  "default_limits = map_of
     [(''global'', mk_limit 1000 3600),
      (''per_ip'', mk_limit 100 3600),
      (''per_user'', mk_limit 500 3600),
      (''upload'', mk_limit 10 3600),
      (''ai_query'', mk_limit 50 3600),
      (''auth'', mk_limit 5 300)]"

definition premium_limits :: "string \<Rightarrow> RateLimit option" where
  "premium_limits = map_of
     [(''global'', mk_limit 10000 3600),
      (''per_ip'', mk_limit 1000 3600),
      (''per_user'', mk_limit 5000 3600),
      (''upload'', mk_limit 100 3600),
      (''ai_query'', mk_limit 500 3600),
      (''auth'', mk_limit 10 300)]"

subsection \<open>Fixed window\<close>

text \<open>
  \<open>now\<close> is \<^verbatim>\<open>time.time()\<close>; all clock reads of one check are taken at that instant.
  The count is read under \<open>window_key\<close>; the increment goes through
  \<open>increment_rate_limit\<close>. Comparing a list or a dict with an integer raises
  \<^verbatim>\<open>TypeError\<close>; \<^verbatim>\<open>//\<close> by zero raises \<^verbatim>\<open>ZeroDivisionError\<close>.
\<close>

definition check_fixed_window ::
  "faults \<Rightarrow> real \<Rightarrow> string \<Rightarrow> RateLimit \<Rightarrow> CacheService \<Rightarrow> (py_error + RateLimitResult) \<times> CacheService" where
  "check_fixed_window f now cache_key rate_limit cs =
     (let current_time = py_int now in
      if window rate_limit = 0 then (Inl ZeroDivisionError, cs)
      else
        let window_start = (current_time div window rate_limit) * window rate_limit;
            window_key = cache_key @ '':'' @ str_int window_start
        in case CacheService_get (get_fails f) now window_key cs of
             (got, cs1) \<Rightarrow>
               (case or_default got (IntV 0) of
                  ListV xs \<Rightarrow> (Inl TypeError, cs1)
                | BucketV t l \<Rightarrow> (Inl TypeError, cs1)
                | IntV current_count \<Rightarrow>
                    if current_count \<ge> requests rate_limit then
                      (let reset = window_start + window rate_limit in
                       (Inr \<lparr>allowed = False, remaining = 0, reset_time = reset,
                             retry_after = Some (reset - current_time)\<rparr>, cs1))
                    else
                      (case increment_rate_limit f now window_key (window rate_limit) cs1 of
                         (Inl e, cs2) \<Rightarrow> (Inl e, cs2)
                       | (Inr new_count, cs2) \<Rightarrow>
                           (Inr \<lparr>allowed = True,
                                 remaining = max 0 (requests rate_limit - new_count),
                                 reset_time = window_start + window rate_limit,
                                 retry_after = None\<rparr>, cs2))))"

subsection \<open>Sliding window\<close>

text \<open>
  Iterating an integer raises \<^verbatim>\<open>TypeError\<close>, and so does comparing the keys of a dict
  with an integer; \<^verbatim>\<open>min\<close> of an empty list raises \<^verbatim>\<open>ValueError\<close>.
\<close>

definition check_sliding_window ::
  "faults \<Rightarrow> real \<Rightarrow> string \<Rightarrow> RateLimit \<Rightarrow> CacheService \<Rightarrow> (py_error + RateLimitResult) \<times> CacheService" where
  "check_sliding_window f now cache_key rate_limit cs =
     (let current_time = py_int now;
          window_start = current_time - window rate_limit;
          timestamps_key = cache_key @ '':timestamps''
      in case CacheService_get (get_fails f) now timestamps_key cs of
           (got, cs1) \<Rightarrow>
             (case or_default got (ListV []) of
                IntV n \<Rightarrow> (Inl TypeError, cs1)
              | BucketV t l \<Rightarrow> (Inl TypeError, cs1)
              | ListV timestamps \<Rightarrow>
                  (let recent_timestamps = filter (\<lambda>ts. ts > window_start) timestamps in
                   if int (length recent_timestamps) \<ge> requests rate_limit then
                     (if recent_timestamps = [] then (Inl ValueError, cs1)
                      else
                        let oldest_timestamp = min_list recent_timestamps;
                            retry = oldest_timestamp + window rate_limit - current_time
                        in (Inr \<lparr>allowed = False, remaining = 0,
                                 reset_time = oldest_timestamp + window rate_limit,
                                 retry_after = Some (max 1 retry)\<rparr>, cs1))
                   else
                     (let appended = recent_timestamps @ [current_time] in
                      case CacheService_set (write_fails f) now timestamps_key (ListV appended)
                             (window rate_limit) cs1 of
                        (ok, cs2) \<Rightarrow>
                          (Inr \<lparr>allowed = True,
                                remaining = requests rate_limit - int (length appended),
                                reset_time = current_time + window rate_limit,
                                retry_after = None\<rparr>, cs2)))))"

subsection \<open>Token bucket\<close>

text \<open>
  Subscripting an integer or a list with \<^verbatim>\<open>"last_refill"\<close> raises \<^verbatim>\<open>TypeError\<close>.
  \<^verbatim>\<open>rate_limit.burst or rate_limit.requests\<close> takes the burst unless it is \<^verbatim>\<open>None\<close>
  or 0.

  The in-memory cache hands out the dictionary object it holds. When \<open>bucket_data\<close> is
  that object and not the default built after \<^verbatim>\<open>or\<close>, the assignments to
  \<^verbatim>\<open>bucket_data["tokens"]\<close> and \<^verbatim>\<open>bucket_data["last_refill"]\<close> change the stored entry
  at once, its expiry untouched, also on the path that denies and never calls
  \<^verbatim>\<open>set\<close>, and so does \<^verbatim>\<open>bucket_data["tokens"] -= 1\<close> when the \<^verbatim>\<open>set\<close> that
  follows it fails. The Redis cache hands out a fresh object decoded from JSON.

  Here the numbers of the bucket are exact reals: this is the check with the rounding
  of the float operations left out. The check with the rounding of every operation is
  \<open>check_token_bucket_float\<close> below.
\<close>

definition from_store :: "'n py_value option \<Rightarrow> bool" where
  "from_store got = (case got of None \<Rightarrow> False | Some v \<Rightarrow> truthy v)"

definition update_in_place :: "string \<Rightarrow> 'v \<Rightarrow> 'v cache_service \<Rightarrow> 'v cache_service" where
  "update_in_place key v cs =
     (case current_cache cs of
        RedisCache \<Rightarrow> cs
      | InMemoryCache \<Rightarrow>
          (case contents cs key of
             None \<Rightarrow> cs
           | Some entry \<Rightarrow> cs\<lparr>contents := (contents cs)(key \<mapsto> entry\<lparr>entry_value := v\<rparr>)\<rparr>))"

definition max_tokens :: "RateLimit \<Rightarrow> int" where
  "max_tokens rate_limit =
     (case burst rate_limit of
        None \<Rightarrow> requests rate_limit
      | Some b \<Rightarrow> if b \<noteq> 0 then b else requests rate_limit)"

definition check_token_bucket ::
  "faults \<Rightarrow> real \<Rightarrow> string \<Rightarrow> RateLimit \<Rightarrow> CacheService \<Rightarrow> (py_error + RateLimitResult) \<times> CacheService" where
  "check_token_bucket f now cache_key rate_limit cs =
     (let current_time = now;
          bucket_key = cache_key @ '':bucket''
      in case CacheService_get (get_fails f) now bucket_key cs of
           (got, cs1) \<Rightarrow>
             (case or_default got (BucketV (of_int (requests rate_limit)) current_time) of
                IntV n \<Rightarrow> (Inl TypeError, cs1)
              | ListV xs \<Rightarrow> (Inl TypeError, cs1)
              | BucketV tokens last_refill \<Rightarrow>
                  if window rate_limit = 0 then (Inl ZeroDivisionError, cs1)
                  else
                    let time_elapsed = current_time - last_refill;
                        tokens_to_add =
                          py_int (time_elapsed * (of_int (requests rate_limit) / of_int (window rate_limit)));
                        refilled = min (of_int (max_tokens rate_limit)) (tokens + of_int tokens_to_add);
                        cs2 = (if from_store got
                               then update_in_place bucket_key (BucketV refilled current_time) cs1
                               else cs1)
                    in if refilled < 1 then
                         (if requests rate_limit = 0 then (Inl ZeroDivisionError, cs2)
                          else
                            let retry =
                                  py_int ((1 - refilled) *
                                    (of_int (window rate_limit) / of_int (requests rate_limit)))
                            in (Inr \<lparr>allowed = False, remaining = 0,
                                     reset_time = py_int (current_time + of_int retry),
                                     retry_after = Some retry\<rparr>, cs2))
                       else
                         (let left = refilled - 1;
                              cs3 = (if from_store got
                                     then update_in_place bucket_key (BucketV left current_time) cs2
                                     else cs2)
                          in case CacheService_set (write_fails f) now bucket_key
                                    (BucketV left current_time) (window rate_limit * 2) cs3 of
                               (ok, cs4) \<Rightarrow>
                                 (Inr \<lparr>allowed = True, remaining = py_int left,
                                       reset_time = py_int (current_time + of_int (window rate_limit)),
                                       retry_after = None\<rparr>, cs4))))"

subsection \<open>Token bucket in float arithmetic\<close>

text \<open>
  The numbers of Python as the token bucket has them. An \<^verbatim>\<open>int\<close> is unbounded. A
  \<^verbatim>\<open>float\<close> is a double: a real number, an infinity (\<open>Inf True\<close> is \<^verbatim>\<open>+inf\<close>) or
  \<^verbatim>\<open>nan\<close>. A float operation returns its exact result, rounded: the rounding \<open>rnd\<close>
  sends a real number to a double, or to an infinity when it is out of range. It is a
  parameter of the check, and nothing is assumed of it. The sign of a zero, which the
  check never reads, is left out.
\<close>

datatype pyfloat = Finite real | Inf bool | NaN

datatype pynum = PyInt int | PyFloat pyfloat

type_synonym rounding = "real \<Rightarrow> pyfloat"

fun float_neg :: "pyfloat \<Rightarrow> pyfloat" where
  "float_neg (Finite x) = Finite (- x)"
| "float_neg (Inf s) = Inf (\<not> s)"
| "float_neg NaN = NaN"

fun float_add :: "rounding \<Rightarrow> pyfloat \<Rightarrow> pyfloat \<Rightarrow> pyfloat" where
  "float_add rnd (Finite x) (Finite y) = rnd (x + y)"
| "float_add rnd (Finite x) (Inf t) = Inf t"
| "float_add rnd (Inf s) (Finite y) = Inf s"
| "float_add rnd (Inf s) (Inf t) = (if s = t then Inf s else NaN)"
| "float_add rnd NaN y = NaN"
| "float_add rnd (Finite x) NaN = NaN"
| "float_add rnd (Inf s) NaN = NaN"

fun float_mul :: "rounding \<Rightarrow> pyfloat \<Rightarrow> pyfloat \<Rightarrow> pyfloat" where
  "float_mul rnd (Finite x) (Finite y) = rnd (x * y)"
| "float_mul rnd (Finite x) (Inf t) = (if x = 0 then NaN else Inf ((0 < x) = t))"
| "float_mul rnd (Inf s) (Finite y) = (if y = 0 then NaN else Inf (s = (0 < y)))"
| "float_mul rnd (Inf s) (Inf t) = Inf (s = t)"
| "float_mul rnd NaN y = NaN"
| "float_mul rnd (Finite x) NaN = NaN"
| "float_mul rnd (Inf s) NaN = NaN"

text \<open>
  An \<^verbatim>\<open>int\<close> that meets a \<^verbatim>\<open>float\<close> in an operation is converted first, with
  \<^verbatim>\<open>OverflowError\<close> when it is too large for a double. Two \<^verbatim>\<open>int\<close>s are added,
  subtracted and multiplied exactly. \<^verbatim>\<open>/\<close> on two \<^verbatim>\<open>int\<close>s rounds the exact
  quotient, with \<^verbatim>\<open>ZeroDivisionError\<close> for a zero divisor and \<^verbatim>\<open>OverflowError\<close> for a
  quotient out of range.
\<close>

definition float_of_int :: "rounding \<Rightarrow> int \<Rightarrow> py_error + pyfloat" where
  "float_of_int rnd i =
     (case rnd (of_int i) of
        Finite x \<Rightarrow> Inr (Finite x)
      | Inf s \<Rightarrow> Inl OverflowError
      | NaN \<Rightarrow> Inl OverflowError)"

fun as_float :: "rounding \<Rightarrow> pynum \<Rightarrow> py_error + pyfloat" where
  "as_float rnd (PyInt i) = float_of_int rnd i"
| "as_float rnd (PyFloat x) = Inr x"

definition float_op ::
  "(pyfloat \<Rightarrow> pyfloat \<Rightarrow> pyfloat) \<Rightarrow> rounding \<Rightarrow> pynum \<Rightarrow> pynum \<Rightarrow> py_error + pynum" where
  "float_op op rnd a b =
     (case as_float rnd a of
        Inl e \<Rightarrow> Inl e
      | Inr x \<Rightarrow> (case as_float rnd b of Inl e \<Rightarrow> Inl e | Inr y \<Rightarrow> Inr (PyFloat (op x y))))"

fun py_add :: "rounding \<Rightarrow> pynum \<Rightarrow> pynum \<Rightarrow> py_error + pynum" where
  "py_add rnd (PyInt i) (PyInt j) = Inr (PyInt (i + j))"
| "py_add rnd (PyInt i) (PyFloat y) = float_op (float_add rnd) rnd (PyInt i) (PyFloat y)"
| "py_add rnd (PyFloat x) b = float_op (float_add rnd) rnd (PyFloat x) b"

fun py_sub :: "rounding \<Rightarrow> pynum \<Rightarrow> pynum \<Rightarrow> py_error + pynum" where
  "py_sub rnd (PyInt i) (PyInt j) = Inr (PyInt (i - j))"
| "py_sub rnd (PyInt i) (PyFloat y) =
     float_op (\<lambda>x y. float_add rnd x (float_neg y)) rnd (PyInt i) (PyFloat y)"
| "py_sub rnd (PyFloat x) b =
     float_op (\<lambda>x y. float_add rnd x (float_neg y)) rnd (PyFloat x) b"

fun py_mul :: "rounding \<Rightarrow> pynum \<Rightarrow> pynum \<Rightarrow> py_error + pynum" where
  "py_mul rnd (PyInt i) (PyInt j) = Inr (PyInt (i * j))"
| "py_mul rnd (PyInt i) (PyFloat y) = float_op (float_mul rnd) rnd (PyInt i) (PyFloat y)"
| "py_mul rnd (PyFloat x) b = float_op (float_mul rnd) rnd (PyFloat x) b"

definition true_div :: "rounding \<Rightarrow> int \<Rightarrow> int \<Rightarrow> py_error + pyfloat" where
  "true_div rnd a b =
     (if b = 0 then Inl ZeroDivisionError
      else (case rnd (of_int a / of_int b) of
              Finite q \<Rightarrow> Inr (Finite q)
            | Inf s \<Rightarrow> Inl OverflowError
            | NaN \<Rightarrow> Inl OverflowError))"

text \<open>
  Comparisons are exact, between \<^verbatim>\<open>int\<close> and \<^verbatim>\<open>float\<close> as well, and false when an
  operand is \<^verbatim>\<open>nan\<close>. \<^verbatim>\<open>min(a, b)\<close> is \<open>b\<close> when \<open>b < a\<close> and \<open>a\<close> otherwise.
  \<^verbatim>\<open>int\<close> truncates a float towards zero; it raises \<^verbatim>\<open>OverflowError\<close> on an infinity
  and \<^verbatim>\<open>ValueError\<close> on \<^verbatim>\<open>nan\<close>.
\<close>

fun exact :: "pynum \<Rightarrow> pyfloat" where
  "exact (PyInt i) = Finite (of_int i)"
| "exact (PyFloat x) = x"

fun float_less :: "pyfloat \<Rightarrow> pyfloat \<Rightarrow> bool" where
  "float_less (Finite x) (Finite y) = (x < y)"
| "float_less (Finite x) (Inf t) = t"
| "float_less (Inf s) (Finite y) = (\<not> s)"
| "float_less (Inf s) (Inf t) = (\<not> s \<and> t)"
| "float_less NaN y = False"
| "float_less (Finite x) NaN = False"
| "float_less (Inf s) NaN = False"

definition py_lt :: "pynum \<Rightarrow> pynum \<Rightarrow> bool" where
  "py_lt a b = float_less (exact a) (exact b)"

definition py_min :: "pynum \<Rightarrow> pynum \<Rightarrow> pynum" where
  "py_min a b = (if py_lt b a then b else a)"

fun int_of_num :: "pynum \<Rightarrow> py_error + int" where
  "int_of_num (PyInt i) = Inr i"
| "int_of_num (PyFloat (Finite x)) = Inr (py_int x)"
| "int_of_num (PyFloat (Inf s)) = Inl OverflowError"
| "int_of_num (PyFloat NaN) = Inl ValueError"

text \<open>
  The three expressions of the check that end in \<^verbatim>\<open>int(...)\<close>:
  \<^verbatim>\<open>int(time_elapsed * (rate_limit.requests / rate_limit.window))\<close> with
  \<^verbatim>\<open>time_elapsed = current_time - bucket_data["last_refill"]\<close>,
  \<^verbatim>\<open>int((1 - bucket_data["tokens"]) * (rate_limit.window / rate_limit.requests))\<close>, and
  \<^verbatim>\<open>int(current_time + n)\<close>.
\<close>

definition tokens_to_add :: "rounding \<Rightarrow> pynum \<Rightarrow> pynum \<Rightarrow> RateLimit \<Rightarrow> py_error + int" where
  "tokens_to_add rnd current_time last_refill rate_limit =
     (case py_sub rnd current_time last_refill of
        Inl e \<Rightarrow> Inl e
      | Inr time_elapsed \<Rightarrow>
          (case true_div rnd (requests rate_limit) (window rate_limit) of
             Inl e \<Rightarrow> Inl e
           | Inr rate \<Rightarrow>
               (case py_mul rnd time_elapsed (PyFloat rate) of
                  Inl e \<Rightarrow> Inl e
                | Inr product \<Rightarrow> int_of_num product)))"

definition retry_delay :: "rounding \<Rightarrow> pynum \<Rightarrow> RateLimit \<Rightarrow> py_error + int" where
  "retry_delay rnd tokens rate_limit =
     (case py_sub rnd (PyInt 1) tokens of
        Inl e \<Rightarrow> Inl e
      | Inr missing \<Rightarrow>
          (case true_div rnd (window rate_limit) (requests rate_limit) of
             Inl e \<Rightarrow> Inl e
           | Inr per_token \<Rightarrow>
               (case py_mul rnd missing (PyFloat per_token) of
                  Inl e \<Rightarrow> Inl e
                | Inr delay \<Rightarrow> int_of_num delay)))"

definition reset_at :: "rounding \<Rightarrow> pynum \<Rightarrow> int \<Rightarrow> py_error + int" where
  "reset_at rnd current_time n =
     (case py_add rnd current_time (PyInt n) of Inl e \<Rightarrow> Inl e | Inr t \<Rightarrow> int_of_num t)"

text \<open>
  The check, statement by statement. An exception leaves the store as the statements
  before it have made it: the assignments to \<open>bucket_data\<close> reach a bucket that came
  from the in-memory store, and \<^verbatim>\<open>set\<close> is called before the result is built.
\<close>

definition check_token_bucket_float ::
  "rounding \<Rightarrow> faults \<Rightarrow> real \<Rightarrow> string \<Rightarrow> RateLimit \<Rightarrow> pynum py_value cache_service
     \<Rightarrow> (py_error + RateLimitResult) \<times> pynum py_value cache_service" where
  "check_token_bucket_float rnd f now cache_key rate_limit cs =
     (let current_time = PyFloat (Finite now);
          bucket_key = cache_key @ '':bucket''
      in case CacheService_get (get_fails f) now bucket_key cs of
           (got, cs1) \<Rightarrow>
             (case or_default got (BucketV (PyInt (requests rate_limit)) current_time) of
                IntV n \<Rightarrow> (Inl TypeError, cs1)
              | ListV xs \<Rightarrow> (Inl TypeError, cs1)
              | BucketV tokens last_refill \<Rightarrow>
                  (case tokens_to_add rnd current_time last_refill rate_limit of
                     Inl e \<Rightarrow> (Inl e, cs1)
                   | Inr added \<Rightarrow>
                       (case py_add rnd tokens (PyInt added) of
                          Inl e \<Rightarrow> (Inl e, cs1)
                        | Inr topped \<Rightarrow>
                            let refilled = py_min (PyInt (max_tokens rate_limit)) topped;
                                cs2 = (if from_store got
                                       then update_in_place bucket_key
                                              (BucketV refilled current_time) cs1
                                       else cs1)
                            in if py_lt refilled (PyInt 1) then
                                 (case retry_delay rnd refilled rate_limit of
                                    Inl e \<Rightarrow> (Inl e, cs2)
                                  | Inr retry \<Rightarrow>
                                      (case reset_at rnd current_time retry of
                                         Inl e \<Rightarrow> (Inl e, cs2)
                                       | Inr reset \<Rightarrow>
                                           (Inr \<lparr>allowed = False, remaining = 0,
                                                 reset_time = reset,
                                                 retry_after = Some retry\<rparr>, cs2)))
                               else
                                 (case py_sub rnd refilled (PyInt 1) of
                                    Inl e \<Rightarrow> (Inl e, cs2)
                                  | Inr left \<Rightarrow>
                                      let cs3 = (if from_store got
                                                 then update_in_place bucket_key
                                                        (BucketV left current_time) cs2
                                                 else cs2)
                                      in case CacheService_set (write_fails f) now bucket_key
                                                (BucketV left current_time)
                                                (window rate_limit * 2) cs3 of
                                           (ok, cs4) \<Rightarrow>
                                             (case int_of_num left of
                                                Inl e \<Rightarrow> (Inl e, cs4)
                                              | Inr whole \<Rightarrow>
                                                  (case reset_at rnd current_time
                                                          (window rate_limit) of
                                                     Inl e \<Rightarrow> (Inl e, cs4)
                                                   | Inr reset \<Rightarrow>
                                                       (Inr \<lparr>allowed = True,
                                                             remaining = whole,
                                                             reset_time = reset,
                                                             retry_after = None\<rparr>,
                                                        cs4))))))))"

text \<open>
  The rounding of the doubles of IEEE 754, to the nearest double and to the even one
  of two nearest: with \<open>2 ^ e \<le> |x| < 2 ^ (e + 1)\<close>, and \<open>e\<close> not below \<open>- 1022\<close>, the
  doubles around \<open>x\<close> are the multiples of \<open>2 ^ (e - 52)\<close>, and a rounded magnitude of
  \<open>2 ^ 1024\<close> or more is an infinity.
\<close>

definition round_half_even :: "real \<Rightarrow> int" where
  "round_half_even x =
     (let n = \<lfloor>x\<rfloor>; d = x - of_int n
      in if d < 1 / 2 then n else if 1 / 2 < d then n + 1 else if even n then n else n + 1)"

definition binary64 :: rounding where
  "binary64 x =
     (if x = 0 then Finite 0
      else
        let e = max \<lfloor>log 2 \<bar>x\<bar>\<rfloor> (- 1022);
            ulp = 2 powr of_int (e - 52);
            y = of_int (round_half_even (x / ulp)) * ulp
        in if 2 powr 1024 \<le> \<bar>y\<bar> then Inf (0 < x) else Finite y)"

subsection \<open>check_rate_limit and reset_rate_limit\<close>

text \<open>
  The \<^verbatim>\<open>if/elif\<close> chain on the strategy at the end of \<^verbatim>\<open>check_rate_limit\<close>. Its
  last \<^verbatim>\<open>else\<close> is never taken: the enumeration has the three values only.
\<close>

definition check_strategy ::
  "faults \<Rightarrow> real \<Rightarrow> string \<Rightarrow> RateLimit \<Rightarrow> CacheService \<Rightarrow> (py_error + RateLimitResult) \<times> CacheService" where
  "check_strategy f now cache_key rate_limit cs =
     (case strategy rate_limit of
        FIXED_WINDOW \<Rightarrow> check_fixed_window f now cache_key rate_limit cs
      | SLIDING_WINDOW \<Rightarrow> check_sliding_window f now cache_key rate_limit cs
      | TOKEN_BUCKET \<Rightarrow> check_token_bucket f now cache_key rate_limit cs)"

text \<open>
  \<^verbatim>\<open>limits.get(limit_type, self.default_limits["global"])\<close>: the default argument is
  evaluated first, and it is always the entry of the standard table.
\<close>

definition lookup_limit :: "string \<Rightarrow> bool \<Rightarrow> py_error + RateLimit" where
  "lookup_limit limit_type is_premium =
     (let limits = (if is_premium then premium_limits else default_limits) in
      case default_limits ''global'' of
        None \<Rightarrow> Inl KeyError
      | Some fallback \<Rightarrow>
          (case limits limit_type of None \<Rightarrow> Inr fallback | Some rate_limit \<Rightarrow> Inr rate_limit))"

definition limiter_key :: "string \<Rightarrow> string \<Rightarrow> string" where
  "limiter_key limit_type identifier = ''rate_limit:'' @ limit_type @ '':'' @ identifier"

definition check_rate_limit ::
  "faults \<Rightarrow> real \<Rightarrow> string \<Rightarrow> string \<Rightarrow> bool \<Rightarrow> CacheService \<Rightarrow> (py_error + RateLimitResult) \<times> CacheService" where
  "check_rate_limit f now identifier limit_type is_premium cs =
     (case lookup_limit limit_type is_premium of
        Inl e \<Rightarrow> (Inl e, cs)
      | Inr rate_limit \<Rightarrow>
          check_strategy f now (limiter_key limit_type identifier) rate_limit cs)"

definition reset_rate_limit ::
  "bool \<Rightarrow> real \<Rightarrow> string \<Rightarrow> string \<Rightarrow> CacheService \<Rightarrow> bool \<times> CacheService" where
  "reset_rate_limit fails now identifier limit_type cs =
     CacheService_delete fails now (limiter_key limit_type identifier) cs"

section \<open>The request gatekeeper\<close>

text \<open>
  Of a request the limiter reads two headers and the client address. Header values are
  Latin-1 strings, one \<open>char\<close> per character. \<open>when_truthy\<close> is the test
  \<^verbatim>\<open>if s:\<close> on an optional string: \<^verbatim>\<open>None\<close> and the empty string are false.
\<close>

record Request =
  headers :: "string \<Rightarrow> string option"
  client :: "(string \<times> nat) option"

definition when_truthy :: "string option \<Rightarrow> string option" where
  "when_truthy s = (case s of None \<Rightarrow> None | Some v \<Rightarrow> if v = [] then None else Some v)"

text \<open>The characters below 256 that \<^verbatim>\<open>str.strip()\<close> removes.\<close>

definition is_space :: "char \<Rightarrow> bool" where
  "is_space c = ((of_char c :: nat) \<in> set [9, 10, 11, 12, 13, 28, 29, 30, 31, 32, 133, 160])"

definition strip :: "string \<Rightarrow> string" where
  "strip s = rev (dropWhile is_space (rev (dropWhile is_space s)))"

text \<open>\<^verbatim>\<open>s.split(',')[0]\<close>: the text before the first comma.\<close>

definition first_field :: "string \<Rightarrow> string" where
  "first_field s = takeWhile (\<lambda>c. c \<noteq> CHR '','') s"

definition get_identifier_from_request :: "Request \<Rightarrow> string option \<Rightarrow> string" where
  "get_identifier_from_request request user_id =
     (case when_truthy user_id of
        Some uid \<Rightarrow> ''user:'' @ uid
      | None \<Rightarrow>
          (case when_truthy (headers request ''X-Forwarded-For'') of
             Some forwarded_for \<Rightarrow> ''ip:'' @ strip (first_field forwarded_for)
           | None \<Rightarrow>
               (case when_truthy (headers request ''X-Real-IP'') of
                  Some real_ip \<Rightarrow> ''ip:'' @ real_ip
                | None \<Rightarrow>
                    ''ip:'' @ (case client request of
                                 Some (host, port) \<Rightarrow> host
                               | None \<Rightarrow> ''unknown''))))"

record HTTPException =
  status_code :: int
  detail_error :: string
  detail_message :: string
  detail_retry_after :: "int option"
  detail_reset_time :: int
  exception_headers :: "(string \<times> string) list"

datatype raised = PyError py_error | Http HTTPException

text \<open>
  On a denial the headers are built from \<^verbatim>\<open>rate_limiter.default_limits[limit_type]\<close>,
  a subscript that raises \<^verbatim>\<open>KeyError\<close> on a missing key;
  \<^verbatim>\<open>if result.retry_after:\<close> is false for \<^verbatim>\<open>None\<close> and for 0.
\<close>

definition rate_limit_dependency ::
  "faults \<Rightarrow> real \<Rightarrow> Request \<Rightarrow> string \<Rightarrow> string option \<Rightarrow> bool \<Rightarrow> CacheService
     \<Rightarrow> (raised + RateLimitResult) \<times> CacheService" where
  "rate_limit_dependency f now request limit_type user_id is_premium cs =
     (let identifier = get_identifier_from_request request user_id in
      case check_rate_limit f now identifier limit_type is_premium cs of
        (Inl e, cs1) \<Rightarrow> (Inl (PyError e), cs1)
      | (Inr result, cs1) \<Rightarrow>
          if \<not> allowed result then
            (case default_limits limit_type of
               None \<Rightarrow> (Inl (PyError KeyError), cs1)
             | Some configured \<Rightarrow>
                 (let hdrs =
                        [(''X-RateLimit-Limit'', str_int (requests configured)),
                         (''X-RateLimit-Remaining'', str_int (remaining result)),
                         (''X-RateLimit-Reset'', str_int (reset_time result))] @
                        (case retry_after result of
                           None \<Rightarrow> []
                         | Some r \<Rightarrow> if r \<noteq> 0 then [(''Retry-After'', str_int r)] else [])
                  in (Inl (Http \<lparr>status_code = 429,
                                  detail_error = ''Rate limit exceeded'',
                                  detail_message = ''Too many requests for '' @ limit_type,
                                  detail_retry_after = retry_after result,
                                  detail_reset_time = reset_time result,
                                  exception_headers = hdrs\<rparr>), cs1)))
          else (Inr result, cs1))"

section \<open>Runs and example inputs\<close>

text \<open>Checks issued one after the other, at the given instants, on the same store.\<close>

fun check_many ::
  "faults \<Rightarrow> real list \<Rightarrow> string \<Rightarrow> string \<Rightarrow> bool \<Rightarrow> CacheService
     \<Rightarrow> (py_error + RateLimitResult) list \<times> CacheService" where
  "check_many f [] identifier limit_type is_premium cs = ([], cs)"
| "check_many f (now # instants) identifier limit_type is_premium cs =
     (case check_rate_limit f now identifier limit_type is_premium cs of
        (out, cs1) \<Rightarrow>
          (case check_many f instants identifier limit_type is_premium cs1 of
             (outs, cs2) \<Rightarrow> (out # outs, cs2)))"

text \<open>Whether an outcome is a result that allows the request.\<close>

definition is_allowed :: "py_error + RateLimitResult \<Rightarrow> bool" where
  "is_allowed out = (case out of Inl e \<Rightarrow> False | Inr result \<Rightarrow> allowed result)"

text \<open>A check, a reset, and a check again, all at the same instant.\<close>

definition check_reset_check ::
  "faults \<Rightarrow> real \<Rightarrow> string \<Rightarrow> string \<Rightarrow> bool \<Rightarrow> CacheService
     \<Rightarrow> (py_error + RateLimitResult) \<times> bool \<times> (py_error + RateLimitResult)" where
  "check_reset_check f now identifier limit_type is_premium cs =
     (case check_rate_limit f now identifier limit_type is_premium cs of
        (first, cs1) \<Rightarrow>
          (case reset_rate_limit False now identifier limit_type cs1 of
             (deleted, cs2) \<Rightarrow>
               (first, deleted, fst (check_rate_limit f now identifier limit_type is_premium cs2))))"

definition empty_store :: "'v cache_service" where
  "empty_store = \<lparr>current_cache = InMemoryCache, contents = Map.empty, error_log = []\<rparr>"

definition no_faults :: faults where
  "no_faults = \<lparr>get_fails = False, write_fails = False\<rparr>"

definition example_request :: Request where
  "example_request =
     \<lparr>headers = [''X-Forwarded-For'' \<mapsto> '' 10.0.0.7 , 192.168.1.1''],
      client = Some (''172.16.0.1'', 443)\<rparr>"

text \<open>A request whose forwarded address itself starts with \<open>ip:\<close>.\<close>

definition nested_request :: Request where
  "nested_request = \<lparr>headers = [''X-Forwarded-For'' \<mapsto> ''ip:10.0.0.7''], client = None\<rparr>"

text \<open>A store in which one key holds the value \<open>v\<close> until the instant \<open>expiry\<close>.\<close>

definition store_with :: "backend \<Rightarrow> string \<Rightarrow> 'v \<Rightarrow> real \<Rightarrow> 'v cache_service" where
  "store_with b key v expiry =
     \<lparr>current_cache = b,
      contents = [key \<mapsto> \<lparr>entry_value = v, expires_at = expiry\<rparr>],
      error_log = []\<rparr>"

text \<open>
  A quota configuration as the data model has it: a positive limit, a positive window
  and, when a burst is set, a positive burst.
\<close>

definition valid_limit :: "RateLimit \<Rightarrow> bool" where
  "valid_limit rate_limit =
     (0 < requests rate_limit \<and> 0 < window rate_limit \<and>
      (case burst rate_limit of None \<Rightarrow> True | Some b \<Rightarrow> 0 < b))"


text \<open>Configurations of the other two strategies.\<close>

definition bucket_limit :: "int \<Rightarrow> int \<Rightarrow> int option \<Rightarrow> RateLimit" where
  "bucket_limit n w b = \<lparr>requests = n, window = w, strategy = TOKEN_BUCKET, burst = b\<rparr>"

definition sliding_limit :: "int \<Rightarrow> int \<Rightarrow> RateLimit" where
  "sliding_limit n w = \<lparr>requests = n, window = w, strategy = SLIDING_WINDOW, burst = None\<rparr>"

text \<open>Checks against one configuration, one after the other, on the same store.\<close>

fun strategy_many ::
  "faults \<Rightarrow> real list \<Rightarrow> string \<Rightarrow> RateLimit \<Rightarrow> CacheService
     \<Rightarrow> (py_error + RateLimitResult) list \<times> CacheService" where
  "strategy_many f [] cache_key rate_limit cs = ([], cs)"
| "strategy_many f (now # instants) cache_key rate_limit cs =
     (case check_strategy f now cache_key rate_limit cs of
        (out, cs1) \<Rightarrow>
          (case strategy_many f instants cache_key rate_limit cs1 of
             (outs, cs2) \<Rightarrow> (out # outs, cs2)))"

text \<open>Token-bucket checks in float arithmetic, one after the other, on the same store.\<close>

fun bucket_many_float ::
  "rounding \<Rightarrow> faults \<Rightarrow> real list \<Rightarrow> string \<Rightarrow> RateLimit \<Rightarrow> pynum py_value cache_service
     \<Rightarrow> (py_error + RateLimitResult) list \<times> pynum py_value cache_service" where
  "bucket_many_float rnd f [] cache_key rate_limit cs = ([], cs)"
| "bucket_many_float rnd f (now # instants) cache_key rate_limit cs =
     (case check_token_bucket_float rnd f now cache_key rate_limit cs of
        (out, cs1) \<Rightarrow>
          (case bucket_many_float rnd f instants cache_key rate_limit cs1 of
             (outs, cs2) \<Rightarrow> (out # outs, cs2)))"

section \<open>The specification's wording\<close>

text \<open>
  The identifier as the specification words it: the user id, else the first forwarded
  address, else a direct address, else \<open>unknown\<close>, under the prefix \<open>user:\<close> or \<open>ip:\<close>.
  In the code the direct address is the \<^verbatim>\<open>X-Real-IP\<close> header when it is set, else the
  host of the connection.
\<close>

definition spec_identifier :: "string option \<Rightarrow> string option \<Rightarrow> string option \<Rightarrow> string" where
  "spec_identifier uid forwarded direct =
     (case uid of
        Some u \<Rightarrow> ''user:'' @ u
      | None \<Rightarrow>
          (case forwarded of
             Some a \<Rightarrow> ''ip:'' @ a
           | None \<Rightarrow> (case direct of Some d \<Rightarrow> ''ip:'' @ d | None \<Rightarrow> ''ip:'' @ ''unknown'')))"

definition forwarded_address :: "Request \<Rightarrow> string option" where
  "forwarded_address request =
     map_option (\<lambda>v. strip (first_field v)) (when_truthy (headers request ''X-Forwarded-For''))"

definition direct_address :: "Request \<Rightarrow> string option" where
  "direct_address request =
     (case when_truthy (headers request ''X-Real-IP'') of
        Some real_ip \<Rightarrow> Some real_ip
      | None \<Rightarrow> map_option fst (client request))"

text \<open>
  The token bucket as the specification words it: \<open>elapsed \<times> rate\<close> tokens are added,
  with \<open>rate = limit / window\<close>, and a denial waits \<open>ceil((1 - tokens) / rate)\<close>.
\<close>

definition spec_tokens_added :: "real \<Rightarrow> RateLimit \<Rightarrow> real" where
  "spec_tokens_added elapsed rate_limit =
     elapsed * (of_int (requests rate_limit) / of_int (window rate_limit))"

definition spec_retry_after :: "real \<Rightarrow> RateLimit \<Rightarrow> int" where
  "spec_retry_after tokens rate_limit =
     \<lceil>(1 - tokens) / (of_int (requests rate_limit) / of_int (window rate_limit))\<rceil>"



section \<open>Verified properties\<close>

subsection \<open>Evaluation of the helpers\<close>

lemma str_int_0: "str_int 0 = ''0''"
  by (simp add: str_int_def str_nat.simps digit_char_def)

lemma str_int_900: "str_int 900 = ''900''"
  by (simp add: str_int_def str_nat.simps digit_char_def)

lemma str_int_10: "str_int 10 = ''10''"
  by (simp add: str_int_def str_nat.simps digit_char_def)

lemmas fixed_window_eval =
  check_rate_limit_def lookup_limit_def default_limits_def premium_limits_def mk_limit_def
  check_strategy_def check_fixed_window_def limiter_key_def py_int_def
  CacheService_get_def CacheService_set_def CacheService_delete_def
  InMemoryCache_get_def InMemoryCache_set_def InMemoryCache_delete_def
  datetime_min_def datetime_end_def increment_rate_limit_def or_default_def Let_def

subsection \<open>The gatekeeper's identifier\<close>

text \<open>
  C9. The identifier is the one the specification's priority gives: \<open>user:<uid>\<close> for
  an authenticated user id, else \<open>ip:\<close> followed by the first forwarded address, else
  by a direct address, else by \<open>unknown\<close>. It starts with \<open>user:\<close> exactly when a user
  id is given and with \<open>ip:\<close> otherwise, and an identifier made from a user id never
  equals one made from an address.
\<close>

theorem identifier_priority:
  "get_identifier_from_request request user_id =
     spec_identifier (when_truthy user_id) (forwarded_address request) (direct_address request)
   \<and> ((\<exists>uid. when_truthy user_id = Some uid \<and>
             get_identifier_from_request request user_id = ''user:'' @ uid)
        \<or> (when_truthy user_id = None \<and>
            (\<exists>address. get_identifier_from_request request user_id = ''ip:'' @ address)))
   \<and> (when_truthy user_id = None \<longrightarrow> when_truthy user_id' = Some uid' \<longrightarrow>
        get_identifier_from_request request user_id \<noteq>
        get_identifier_from_request request' user_id')"
  by (auto simp: get_identifier_from_request_def spec_identifier_def forwarded_address_def
        direct_address_def split: option.splits)

theorem identifier_priority_witness:
  "when_truthy None = None \<and> when_truthy (Some ''alice'') = Some ''alice'' \<and>
   get_identifier_from_request example_request None = ''ip:10.0.0.7'' \<and>
   get_identifier_from_request example_request None \<noteq>
   get_identifier_from_request example_request (Some ''alice'')"
proof -
  have a: "when_truthy None = None" and b: "when_truthy (Some ''alice'') = Some ''alice''"
    by (simp_all add: when_truthy_def)
  note t = identifier_priority
    [of example_request None "Some ''alice''" "''alice''" example_request]
  from t have "get_identifier_from_request example_request None =
      spec_identifier (when_truthy None) (forwarded_address example_request)
        (direct_address example_request)"
    by blast
  also have "\<dots> = ''ip:10.0.0.7''"
    by (simp add: when_truthy_def spec_identifier_def forwarded_address_def
          example_request_def strip_def first_field_def is_space_def)
  finally have c: "get_identifier_from_request example_request None = ''ip:10.0.0.7''" .
  from t a b have d: "get_identifier_from_request example_request None \<noteq>
      get_identifier_from_request example_request (Some ''alice'')"
    by blast
  from a b c d show ?thesis by blast
qed

subsection \<open>The policy lookup\<close>

text \<open>
  C2, as the code has it. A quota class that is in neither policy table is checked
  against the \<open>global\<close> entry of the standard table, 1000 requests per 3600 seconds
  in a fixed window, whatever the tier of the caller.
\<close>

theorem unknown_class_uses_standard_global:
  assumes "default_limits limit_type = None" and "premium_limits limit_type = None"
  shows "lookup_limit limit_type is_premium = Inr (mk_limit 1000 3600) \<and>
         default_limits ''global'' = Some (mk_limit 1000 3600) \<and>
         check_rate_limit f now identifier limit_type is_premium cs =
           check_fixed_window f now (limiter_key limit_type identifier) (mk_limit 1000 3600) cs"
proof -
  have g: "default_limits ''global'' = Some (mk_limit 1000 3600)"
    by (simp add: default_limits_def)
  have l: "lookup_limit limit_type is_premium = Inr (mk_limit 1000 3600)"
    using assms by (simp add: lookup_limit_def g)
  have "check_rate_limit f now identifier limit_type is_premium cs =
           check_fixed_window f now (limiter_key limit_type identifier) (mk_limit 1000 3600) cs"
    by (simp add: check_rate_limit_def l check_strategy_def) (simp add: mk_limit_def)
  with g l show ?thesis by blast
qed

theorem unknown_class_uses_standard_global_witness:
  "default_limits ''reports'' = None \<and> premium_limits ''reports'' = None \<and>
   lookup_limit ''reports'' True = Inr (mk_limit 1000 3600) \<and>
   fst (check_rate_limit no_faults 1000 ''user:alice'' ''reports'' True empty_store) =
     Inr \<lparr>allowed = True, remaining = 999, reset_time = 3600, retry_after = None\<rparr>"
proof -
  have a: "default_limits ''reports'' = None" and b: "premium_limits ''reports'' = None"
    by (simp_all add: default_limits_def premium_limits_def)
  note t = unknown_class_uses_standard_global
    [OF a b, of True no_faults 1000 "''user:alice''" empty_store]
  have "fst (check_fixed_window no_faults 1000 (limiter_key ''reports'' ''user:alice'')
               (mk_limit 1000 3600) empty_store)
      = Inr \<lparr>allowed = True, remaining = 999, reset_time = 3600, retry_after = None\<rparr>"
    by (simp add: fixed_window_eval str_int_0 empty_store_def no_faults_def)
  with t a b show ?thesis by simp
qed

text \<open>
  C2, as the specification states it, fails for a premium caller: the class
  \<open>reports\<close> is in no table, the premium \<open>global\<close> entry allows 10000 requests, and the
  first check of a premium caller leaves 999 requests, where a check against the
  premium entry leaves 9999.
\<close>

theorem premium_unknown_class_counterexample:
  "premium_limits ''reports'' = None \<and> default_limits ''reports'' = None \<and>
   premium_limits ''global'' = Some (mk_limit 10000 3600) \<and>
   lookup_limit ''reports'' True \<noteq> Inr (mk_limit 10000 3600) \<and>
   fst (check_rate_limit no_faults 1000 ''user:alice'' ''reports'' True empty_store) =
     Inr \<lparr>allowed = True, remaining = 999, reset_time = 3600, retry_after = None\<rparr> \<and>
   fst (check_strategy no_faults 1000 (limiter_key ''reports'' ''user:alice'')
          (mk_limit 10000 3600) empty_store) =
     Inr \<lparr>allowed = True, remaining = 9999, reset_time = 3600, retry_after = None\<rparr>"
  by (simp add: fixed_window_eval str_int_0 empty_store_def no_faults_def)

subsection \<open>Reset and the fixed window on the default tables\<close>

text \<open>
  C1 at a concrete input. The class \<open>auth\<close> allows 5 requests per 300 seconds. On an
  empty in-memory store, at second 1000, a first check leaves 4. The reset that
  follows deletes the key \<open>rate_limit:auth:user:alice\<close>, which no strategy writes: it
  returns \<open>False\<close>. The check after the reset leaves 3, where the claim says 4.
\<close>

theorem reset_leaves_counter:
  "check_reset_check no_faults 1000 ''user:alice'' ''auth'' False empty_store =
     (Inr \<lparr>allowed = True, remaining = 4, reset_time = 1200, retry_after = None\<rparr>,
      False,
      Inr \<lparr>allowed = True, remaining = 3, reset_time = 1200, retry_after = None\<rparr>)"
  by (simp add: check_reset_check_def reset_rate_limit_def fixed_window_eval str_int_900
        empty_store_def no_faults_def)

text \<open>
  C4 at a concrete input. Six checks of the class \<open>auth\<close> (limit 5) in the same second,
  starting from an empty in-memory store: the fixed window reads the count under
  \<open>rate_limit:auth:user:alice:900\<close> and increments it under
  \<open>rate_limit:rate_limit:auth:user:alice:900\<close>, so the count it reads stays absent and
  the sixth check is allowed.
\<close>

theorem fixed_window_admits_past_limit:
  "default_limits ''auth'' = Some (mk_limit 5 300) \<and>
   fst (check_many no_faults [1000, 1000, 1000, 1000, 1000, 1000] ''user:alice'' ''auth''
          False empty_store) =
     [Inr \<lparr>allowed = True, remaining = 4, reset_time = 1200, retry_after = None\<rparr>,
      Inr \<lparr>allowed = True, remaining = 3, reset_time = 1200, retry_after = None\<rparr>,
      Inr \<lparr>allowed = True, remaining = 2, reset_time = 1200, retry_after = None\<rparr>,
      Inr \<lparr>allowed = True, remaining = 1, reset_time = 1200, retry_after = None\<rparr>,
      Inr \<lparr>allowed = True, remaining = 0, reset_time = 1200, retry_after = None\<rparr>,
      Inr \<lparr>allowed = True, remaining = 0, reset_time = 1200, retry_after = None\<rparr>]"
  by (simp add: fixed_window_eval str_int_900 empty_store_def no_faults_def)

subsection \<open>The denial built by the dependency\<close>

lemma example_request_ip: "get_identifier_from_request example_request None = ''ip:10.0.0.7''"
  by (simp add: get_identifier_from_request_def when_truthy_def example_request_def strip_def
        first_field_def is_space_def)

lemma example_request_user:
  "get_identifier_from_request example_request (Some ''alice'') = ''user:alice''"
  by (simp add: get_identifier_from_request_def when_truthy_def)

text \<open>
  C10. When the check denies a request whose \<open>limit_type\<close> is not a key of the
  standard table, \<open>rate_limit_dependency\<close> raises \<^verbatim>\<open>KeyError\<close> instead of the 429
  rejection. When the \<open>limit_type\<close> is a key of the standard table, the rejection is
  raised and its \<open>X-RateLimit-Limit\<close> header is the limit of the standard table,
  for a premium caller too. The witness shows both at concrete inputs: a denied
  request of the class \<open>reports\<close>, and a denied premium request of the class \<open>upload\<close>
  (premium limit 100) whose header says 10.
\<close>

theorem dependency_denial:
  "(default_limits limit_type = None \<longrightarrow>
      check_rate_limit f now (get_identifier_from_request request user_id) limit_type is_premium cs
        = (Inr result, after) \<longrightarrow>
      \<not> allowed result \<longrightarrow>
      rate_limit_dependency f now request limit_type user_id is_premium cs = (Inl (PyError KeyError), after))
   \<and> (default_limits limit_type' = Some configured \<longrightarrow>
      check_rate_limit f' now' (get_identifier_from_request request' user_id') limit_type' is_premium' cs'
        = (Inr result', after') \<longrightarrow>
      \<not> allowed result' \<longrightarrow>
      (\<exists>exc. rate_limit_dependency f' now' request' limit_type' user_id' is_premium' cs' = (Inl (Http exc), after')
           \<and> status_code exc = 429
           \<and> map_of (exception_headers exc) ''X-RateLimit-Limit'' = Some (str_int (requests configured))))"
  by (simp add: rate_limit_dependency_def)

theorem dependency_denial_witness:
  "default_limits ''reports'' = None \<and>
   rate_limit_dependency no_faults 1000 example_request ''reports'' None False
       (store_with InMemoryCache ''rate_limit:reports:ip:10.0.0.7:0'' (IntV 1000) 3600)
     = (Inl (PyError KeyError),
        store_with InMemoryCache ''rate_limit:reports:ip:10.0.0.7:0'' (IntV 1000) 3600) \<and>
   premium_limits ''upload'' = Some (mk_limit 100 3600) \<and>
   (\<exists>exc. rate_limit_dependency no_faults 1000 example_request ''upload'' (Some ''alice'') True
              (store_with InMemoryCache ''rate_limit:upload:user:alice:0'' (IntV 100) 3600)
            = (Inl (Http exc),
               store_with InMemoryCache ''rate_limit:upload:user:alice:0'' (IntV 100) 3600) \<and>
          status_code exc = 429 \<and>
          map_of (exception_headers exc) ''X-RateLimit-Limit'' = Some ''10'')"
proof -
  let ?s1 = "store_with InMemoryCache ''rate_limit:reports:ip:10.0.0.7:0'' (IntV 1000) 3600"
  let ?s2 = "store_with InMemoryCache ''rate_limit:upload:user:alice:0'' (IntV 100) 3600"
  let ?deny = "\<lparr>allowed = False, remaining = 0, reset_time = 3600, retry_after = Some 2600\<rparr>"
  have a: "default_limits ''reports'' = None"
    by (simp add: default_limits_def)
  have b: "default_limits ''upload'' = Some (mk_limit 10 3600)"
    by (simp add: default_limits_def)
  have c: "premium_limits ''upload'' = Some (mk_limit 100 3600)"
    by (simp add: premium_limits_def)
  have d1: "check_rate_limit no_faults 1000 (get_identifier_from_request example_request None)
              ''reports'' False ?s1 = (Inr ?deny, ?s1)"
    unfolding example_request_ip
    by (simp add: fixed_window_eval str_int_0 store_with_def no_faults_def)
  have d2: "check_rate_limit no_faults 1000
              (get_identifier_from_request example_request (Some ''alice'')) ''upload'' True ?s2
            = (Inr ?deny, ?s2)"
    unfolding example_request_user
    by (simp add: fixed_window_eval str_int_0 store_with_def no_faults_def)
  have n: "\<not> allowed ?deny" by simp
  note t = dependency_denial
    [where f = no_faults and now = 1000 and request = example_request and user_id = None
       and limit_type = "''reports''" and is_premium = False and cs = ?s1 and result = ?deny
       and after = ?s1
       and f' = no_faults and now' = 1000 and request' = example_request
       and user_id' = "Some ''alice''" and limit_type' = "''upload''" and is_premium' = True
       and cs' = ?s2 and result' = ?deny and after' = ?s2 and configured = "mk_limit 10 3600"]
  from t a d1 n have e1: "rate_limit_dependency no_faults 1000 example_request ''reports'' None
      False ?s1 = (Inl (PyError KeyError), ?s1)"
    by blast
  from t b d2 n have "\<exists>exc. rate_limit_dependency no_faults 1000 example_request ''upload''
        (Some ''alice'') True ?s2 = (Inl (Http exc), ?s2) \<and> status_code exc = 429 \<and>
        map_of (exception_headers exc) ''X-RateLimit-Limit'' = Some (str_int (requests (mk_limit 10 3600)))"
    by blast
  then have e2: "\<exists>exc. rate_limit_dependency no_faults 1000 example_request ''upload''
        (Some ''alice'') True ?s2 = (Inl (Http exc), ?s2) \<and> status_code exc = 429 \<and>
        map_of (exception_headers exc) ''X-RateLimit-Limit'' = Some ''10''"
    by (simp add: mk_limit_def str_int_10)
  from a e1 c e2 show ?thesis by blast
qed

subsection \<open>Failures of the store\<close>











lemma update_in_place_log: "error_log (update_in_place key v cs) = error_log cs"
  by (simp add: update_in_place_def split: backend.splits option.splits)




subsection \<open>The reset time of a denial\<close>

lemma py_int_gt: "x < real_of_int (py_int x) + 1"
  unfolding py_int_def by (cases "0 \<le> x") (simp_all, linarith+)

lemma py_int_mono:
  assumes "x \<le> y"
  shows "py_int x \<le> py_int y"
proof (cases "0 \<le> x")
  case True
  with assms show ?thesis by (simp add: py_int_def floor_mono)
next
  case neg: False
  show ?thesis
  proof (cases "0 \<le> y")
    case True
    from neg have "\<lceil>x\<rceil> \<le> 0" by simp
    moreover from True have "0 \<le> \<lfloor>y\<rfloor>" by simp
    ultimately have "\<lceil>x\<rceil> \<le> \<lfloor>y\<rfloor>" by linarith
    with neg True show ?thesis by (simp add: py_int_def)
  next
    case False
    with neg assms show ?thesis by (simp add: py_int_def ceiling_mono)
  qed
qed

lemma py_int_nonneg: "0 \<le> x \<Longrightarrow> 0 \<le> py_int x"
  by (simp add: py_int_def)

lemma py_int_add_nonneg: "0 \<le> n \<Longrightarrow> py_int now \<le> py_int (now + of_int n)"
  by (rule py_int_mono) simp

lemma after_py_int: "py_int now < n \<Longrightarrow> now < real_of_int n"
proof -
  assume "py_int now < n"
  then have "real_of_int (py_int now) + 1 \<le> real_of_int n" by linarith
  with py_int_gt[of now] show ?thesis by linarith
qed

lemma min_list_mem: "xs \<noteq> [] \<Longrightarrow> min_list xs \<in> set xs"
proof (induction xs rule: min_list.induct)
  case (1 x xs)
  then show ?case by (cases xs) (auto simp: min_def)
next
  case 2
  then show ?case by simp
qed

lemma fixed_reset_time:
  assumes run: "check_fixed_window f now cache_key rate_limit cs = (Inr result, after)"
    and denied: "\<not> allowed result"
    and w: "0 < window rate_limit"
  shows "py_int now < reset_time result"
proof -
  from w have w0: "window rate_limit \<noteq> 0" by simp
  define ws where "ws = py_int now div window rate_limit * window rate_limit"
  define wk where "wk = cache_key @ '':'' @ str_int ws"
  obtain got cs1 where g: "CacheService_get (get_fails f) now wk cs = (got, cs1)"
    by fastforce
  have "reset_time result = ws + window rate_limit"
    using run denied w0 g
    by (auto simp: check_fixed_window_def Let_def wk_def ws_def
        split: py_value.splits if_splits prod.splits sum.splits)
  moreover have "py_int now < ws + window rate_limit"
  proof -
    have "py_int now = ws + py_int now mod window rate_limit"
      by (simp add: ws_def)
    moreover have "py_int now mod window rate_limit < window rate_limit"
      using w by simp
    ultimately show ?thesis by linarith
  qed
  ultimately show ?thesis by simp
qed


lemma sliding_reset_time:
  assumes run: "check_sliding_window f now cache_key rate_limit cs = (Inr result, after)"
    and denied: "\<not> allowed result"
  shows "py_int now < reset_time result"
proof -
  obtain got cs1 where
    g: "CacheService_get (get_fails f) now (cache_key @ '':timestamps'') cs = (got, cs1)"
    by fastforce
  from run g obtain timestamps where l: "or_default got (ListV []) = ListV timestamps"
    by (cases "or_default got (ListV [])") (simp_all add: check_sliding_window_def Let_def)
  define recent where
    "recent = filter (\<lambda>ts. py_int now - window rate_limit < ts) timestamps"
  from run denied g l have ne: "recent \<noteq> []"
    and r: "reset_time result = min_list recent + window rate_limit"
    by (auto simp: check_sliding_window_def Let_def recent_def split: if_splits prod.splits)
  from min_list_mem[OF ne] have "py_int now - window rate_limit < min_list recent"
    by (simp add: recent_def)
  with r show ?thesis by simp
qed

lemma bucket_reset_time:
  assumes valid: "valid_limit rate_limit"
    and run: "check_token_bucket f now cache_key rate_limit cs = (Inr result, after)"
    and denied: "\<not> allowed result"
  shows "py_int now \<le> reset_time result"
proof -
  from valid have w: "0 < window rate_limit" and r: "0 < requests rate_limit"
    by (simp_all add: valid_limit_def)
  obtain got cs1 where
    g: "CacheService_get (get_fails f) now (cache_key @ '':bucket'') cs = (got, cs1)"
    by fastforce
  let ?d = "BucketV (of_int (requests rate_limit)) now"
  from run g obtain tokens last_refill where b: "or_default got ?d = BucketV tokens last_refill"
    by (cases "or_default got ?d") (simp_all add: check_token_bucket_def Let_def)
  define refilled where "refilled =
      min (real_of_int (max_tokens rate_limit))
        (tokens + of_int (py_int ((now - last_refill) *
           (of_int (requests rate_limit) / of_int (window rate_limit)))))"
  define retry where "retry =
      py_int ((1 - refilled) * (of_int (window rate_limit) / of_int (requests rate_limit)))"
  from run denied g b w r have low: "refilled < 1"
    and rt: "reset_time result = py_int (now + of_int retry)"
    by (auto simp: check_token_bucket_def Let_def refilled_def retry_def
        split: if_splits prod.splits)
  from low w r have "0 \<le> (1 - refilled) *
      (real_of_int (window rate_limit) / real_of_int (requests rate_limit))"
    by simp
  then have "0 \<le> retry"
    unfolding retry_def by (rule py_int_nonneg)
  then have "py_int now \<le> py_int (now + of_int retry)"
    by (rule py_int_add_nonneg)
  with rt show ?thesis by simp
qed

lemmas bucket_eval =
  check_strategy_def check_token_bucket_def bucket_limit_def max_tokens_def py_int_def
  from_store_def update_in_place_def
  CacheService_get_def CacheService_set_def InMemoryCache_get_def InMemoryCache_set_def
  datetime_min_def datetime_end_def or_default_def Let_def

text \<open>
  C6, as the code has it. For a valid configuration and under each of the three
  strategies, the reset time of a denial is not before the current time in whole
  seconds, \<^verbatim>\<open>int(time.time())\<close>; under the fixed and the sliding window it is after
  the current time itself.
\<close>

theorem reset_time_not_before_check:
  assumes "valid_limit rate_limit"
    and "check_strategy f now cache_key rate_limit cs = (Inr result, after)"
    and "\<not> allowed result"
  shows "py_int now \<le> reset_time result \<and>
         (strategy rate_limit \<noteq> TOKEN_BUCKET \<longrightarrow> now < real_of_int (reset_time result))"
proof (cases "strategy rate_limit")
  case FIXED_WINDOW
  with assms have "py_int now < reset_time result"
    using fixed_reset_time[of f now cache_key rate_limit cs result after]
    by (simp add: check_strategy_def valid_limit_def)
  with after_py_int[of now "reset_time result"] show ?thesis by simp
next
  case SLIDING_WINDOW
  with assms have "py_int now < reset_time result"
    using sliding_reset_time[of f now cache_key rate_limit cs result after]
    by (simp add: check_strategy_def)
  with after_py_int[of now "reset_time result"] show ?thesis by simp
next
  case TOKEN_BUCKET
  with assms show ?thesis
    using bucket_reset_time[of rate_limit f now cache_key cs result after]
    by (simp add: check_strategy_def)
qed

theorem reset_time_not_before_check_witness:
  "valid_limit (mk_limit 5 300) \<and>
   check_strategy no_faults (2001 / 2) (limiter_key ''auth'' ''user:alice'') (mk_limit 5 300)
       (store_with InMemoryCache ''rate_limit:auth:user:alice:900'' (IntV 5) 1200) =
     (Inr \<lparr>allowed = False, remaining = 0, reset_time = 1200, retry_after = Some 200\<rparr>,
      store_with InMemoryCache ''rate_limit:auth:user:alice:900'' (IntV 5) 1200) \<and>
   py_int (2001 / 2) \<le> 1200 \<and> (2001 / 2 :: real) < real_of_int 1200"
proof -
  let ?s = "store_with InMemoryCache ''rate_limit:auth:user:alice:900'' (IntV 5) 1200"
  let ?deny = "\<lparr>allowed = False, remaining = 0, reset_time = 1200, retry_after = Some 200\<rparr>"
  have v: "valid_limit (mk_limit 5 300)"
    by (simp add: valid_limit_def mk_limit_def)
  have d: "check_strategy no_faults (2001 / 2) (limiter_key ''auth'' ''user:alice'')
      (mk_limit 5 300) ?s = (Inr ?deny, ?s)"
    by (simp add: fixed_window_eval str_int_900 store_with_def no_faults_def)
  have n: "\<not> allowed ?deny" by simp
  have s: "strategy (mk_limit 5 300) \<noteq> TOKEN_BUCKET" by (simp add: mk_limit_def)
  from reset_time_not_before_check [OF v d n] s
  have "py_int (2001 / 2) \<le> 1200 \<and> (2001 / 2 :: real) < real_of_int 1200" by simp
  with v d show ?thesis by blast
qed

text \<open>
  C6, as the specification states it, fails for the token bucket. With 2 requests per
  1 second and an empty in-memory store, three checks at second 10.5: the third is
  denied with \<open>retry_after = int(1 * (1 / 2)) = 0\<close> and
  \<open>reset_time = int(10.5 + 0) = 10\<close>, which is before 10.5.
\<close>

theorem token_bucket_reset_counterexample:
  "fst (strategy_many no_faults [21 / 2, 21 / 2, 21 / 2] ''rate_limit:api:user:alice''
          (bucket_limit 2 1 None) empty_store) =
     [Inr \<lparr>allowed = True, remaining = 1, reset_time = 11, retry_after = None\<rparr>,
      Inr \<lparr>allowed = True, remaining = 0, reset_time = 11, retry_after = None\<rparr>,
      Inr \<lparr>allowed = False, remaining = 0, reset_time = 10, retry_after = Some 0\<rparr>] \<and>
   real_of_int 10 < 21 / 2"
  by (simp add: bucket_eval empty_store_def no_faults_def)

subsection \<open>The remaining quota\<close>





lemma set_stored:
  assumes "CacheService_set fl now key v ttl cs = (ok, cs')" and "error_log cs' = error_log cs"
  shows "contents cs' key = Some \<lparr>entry_value = v, expires_at = now + of_int ttl\<rparr>"
  using assms
  by (auto simp: CacheService_set_def RedisCache_set_def InMemoryCache_set_def Let_def
      split: backend.splits if_splits)







subsection \<open>The refill of the token bucket\<close>

text \<open>
  The doubles that the examples below meet, as \<open>binary64\<close> rounds to them. The integers
  and the halves are doubles themselves. \<open>1 / 49\<close> is not: it rounds to
  \<open>5882252574524729 / 2 ^ 58\<close>, below it, and 49 times that double rounds to
  \<open>1 - 1 / 2 ^ 53\<close>, not to 1.
\<close>

lemma binary64_eval:
  fixes x :: real
  assumes lo: "2 powr of_int e \<le> \<bar>x\<bar>" and hi: "\<bar>x\<bar> < 2 powr of_int (e + 1)"
    and e: "- 1022 \<le> e"
    and m: "round_half_even (x / 2 powr of_int (e - 52)) = m"
    and fin: "\<bar>real_of_int m * 2 powr of_int (e - 52)\<bar> < 2 powr 1024"
  shows "binary64 x = Finite (of_int m * 2 powr of_int (e - 52))"
proof -
  have "0 < (2::real) powr of_int e" by simp
  with lo have pos: "0 < \<bar>x\<bar>" by linarith
  then have x: "x \<noteq> 0" by simp
  from pos lo hi have "\<lfloor>log 2 \<bar>x\<bar>\<rfloor> = e"
    by (simp add: floor_log_eq_powr_iff)
  with e have "max \<lfloor>log 2 \<bar>x\<bar>\<rfloor> (- 1022) = e" by simp
  with x m fin show ?thesis
    by (simp add: binary64_def Let_def)
qed

lemma binary64_0: "binary64 0 = Finite 0"
  by (simp add: binary64_def)

lemma binary64_half: "binary64 (1 / 2) = Finite (1 / 2)"
  using binary64_eval[where e="-1" and x="1/2" and m="2 ^ 52"]
  by (simp add: round_half_even_def powr_neg_numeral)

lemma binary64_1: "binary64 1 = Finite 1"
  using binary64_eval[where e=0 and x=1 and m="2 ^ 52"]
  by (simp add: round_half_even_def powr_neg_numeral)

lemma binary64_3_2: "binary64 (3 / 2) = Finite (3 / 2)"
  using binary64_eval[where e=0 and x="3/2" and m="3 * 2 ^ 51"]
  by (simp add: round_half_even_def powr_neg_numeral)

lemma binary64_2: "binary64 2 = Finite 2"
  using binary64_eval[where e=1 and x=2 and m="2 ^ 52"]
  by (simp add: round_half_even_def powr_neg_numeral)

lemma binary64_3: "binary64 3 = Finite 3"
  using binary64_eval[where e=1 and x=3 and m="3 * 2 ^ 51"]
  by (simp add: round_half_even_def powr_neg_numeral)

lemma binary64_5: "binary64 5 = Finite 5"
  using binary64_eval[where e=2 and x=5 and m="5 * 2 ^ 50"]
  by (simp add: round_half_even_def powr_neg_numeral)

lemma binary64_10: "binary64 10 = Finite 10"
  using binary64_eval[where e=3 and x=10 and m="5 * 2 ^ 50"]
  by (simp add: round_half_even_def powr_neg_numeral)

lemma binary64_11: "binary64 11 = Finite 11"
  using binary64_eval[where e=3 and x=11 and m="11 * 2 ^ 49"]
  by (simp add: round_half_even_def powr_neg_numeral)

lemma binary64_49: "binary64 49 = Finite 49"
  using binary64_eval[where e=5 and x=49 and m="49 * 2 ^ 47"]
  by (simp add: round_half_even_def powr_neg_numeral)

lemma binary64_98: "binary64 98 = Finite 98"
  using binary64_eval[where e=6 and x=98 and m="49 * 2 ^ 47"]
  by (simp add: round_half_even_def powr_neg_numeral)

lemma binary64_49th: "binary64 (1 / 49) = Finite (5882252574524729 / 288230376151711744)"
  using binary64_eval[where e="-6" and x="1/49" and m=5882252574524729]
  by (simp add: round_half_even_def powr_neg_numeral)

lemma binary64_49_49th:
  "binary64 (288230376151711721 / 288230376151711744) =
     Finite (9007199254740991 / 9007199254740992)"
  using binary64_eval[where e="-1" and x="288230376151711721 / 288230376151711744"
      and m=9007199254740991]
  by (simp add: round_half_even_def powr_neg_numeral)

lemmas binary64_values =
  binary64_0 binary64_half binary64_1 binary64_3_2 binary64_2 binary64_3 binary64_5
  binary64_10 binary64_11 binary64_49 binary64_98 binary64_49th binary64_49_49th

lemmas float_bucket_eval =
  check_token_bucket_float_def tokens_to_add_def retry_delay_def reset_at_def
  float_op_def float_of_int_def true_div_def py_lt_def py_min_def
  bucket_limit_def max_tokens_def py_int_def from_store_def update_in_place_def
  CacheService_get_def CacheService_set_def InMemoryCache_get_def InMemoryCache_set_def
  datetime_min_def datetime_end_def or_default_def Let_def binary64_values

text \<open>
  C3, as the code has it, whatever the rounding of the float operations. When the
  store returns the bucket \<open>{tokens, last_refill}\<close> and the check returns a result, the
  check has added \<open>int(elapsed * (limit / window))\<close> tokens: the difference, the
  quotient and the product are float operations, each rounded, and \<^verbatim>\<open>int\<close> truncates
  the product to a whole number. The sum is capped at burst-or-limit. When the
  refilled count is below 1 the check denies with
  \<open>retry_after = int((1 - tokens) * (window / limit))\<close>, rounded and truncated in the
  same way, and writes nothing; on the in-memory backend the stored bucket has all the
  same become \<open>{refilled tokens, now}\<close>, through the shared object. Otherwise the
  check allows, takes one token and, when its write logs no failure, the store holds
  the bucket with \<open>last_refill = now\<close> for twice the window.
\<close>

theorem token_bucket_refill_truncates:
  assumes got: "CacheService_get (get_fails f) now (cache_key @ '':bucket'') cs =
                  (Some (BucketV tokens last_refill), cs1)"
    and run: "check_token_bucket_float rnd f now cache_key rate_limit cs = (Inr result, after)"
  shows "\<exists>elapsed rate product added topped.
           py_sub rnd (PyFloat (Finite now)) last_refill = Inr elapsed \<and>
           true_div rnd (requests rate_limit) (window rate_limit) = Inr rate \<and>
           py_mul rnd elapsed (PyFloat rate) = Inr product \<and>
           int_of_num product = Inr added \<and>
           py_add rnd tokens (PyInt added) = Inr topped \<and>
           (let refilled = py_min (PyInt (max_tokens rate_limit)) topped in
            if py_lt refilled (PyInt 1)
            then \<not> allowed result \<and>
                 (\<exists>missing per_token delay retry.
                    py_sub rnd (PyInt 1) refilled = Inr missing \<and>
                    true_div rnd (window rate_limit) (requests rate_limit) = Inr per_token \<and>
                    py_mul rnd missing (PyFloat per_token) = Inr delay \<and>
                    int_of_num delay = Inr retry \<and>
                    retry_after result = Some retry) \<and>
                 after = update_in_place (cache_key @ '':bucket'')
                           (BucketV refilled (PyFloat (Finite now))) cs1
            else allowed result \<and>
                 (\<exists>left. py_sub rnd refilled (PyInt 1) = Inr left \<and>
                    int_of_num left = Inr (remaining result) \<and>
                    (error_log after = error_log cs1 \<longrightarrow>
                       contents after (cache_key @ '':bucket'') =
                         Some \<lparr>entry_value = BucketV left (PyFloat (Finite now)),
                               expires_at = now + of_int (window rate_limit * 2)\<rparr>)))"
proof -
  let ?key = "cache_key @ '':bucket''"
  let ?ct = "PyFloat (Finite now)"
  have d: "or_default (Some (BucketV tokens last_refill))
             (BucketV (PyInt (requests rate_limit)) ?ct) = BucketV tokens last_refill"
    by (simp add: or_default_def)
  have fs: "from_store (Some (BucketV tokens last_refill))"
    by (simp add: from_store_def)
  obtain added where ta: "tokens_to_add rnd ?ct last_refill rate_limit = Inr added"
    using run
    by (cases "tokens_to_add rnd ?ct last_refill rate_limit")
       (simp_all add: check_token_bucket_float_def Let_def got d)
  obtain topped where tp: "py_add rnd tokens (PyInt added) = Inr topped"
    using run
    by (cases "py_add rnd tokens (PyInt added)")
       (simp_all add: check_token_bucket_float_def Let_def got d ta)
  from ta obtain elapsed rate product where
    el: "py_sub rnd ?ct last_refill = Inr elapsed"
    and ra: "true_div rnd (requests rate_limit) (window rate_limit) = Inr rate"
    and pr: "py_mul rnd elapsed (PyFloat rate) = Inr product"
    and ad: "int_of_num product = Inr added"
    by (auto simp: tokens_to_add_def split: sum.splits)
  define refilled where "refilled = py_min (PyInt (max_tokens rate_limit)) topped"
  define cs2 where "cs2 = update_in_place ?key (BucketV refilled ?ct) cs1"
  have branch: "(if py_lt refilled (PyInt 1)
            then \<not> allowed result \<and>
                 (\<exists>missing per_token delay retry.
                    py_sub rnd (PyInt 1) refilled = Inr missing \<and>
                    true_div rnd (window rate_limit) (requests rate_limit) = Inr per_token \<and>
                    py_mul rnd missing (PyFloat per_token) = Inr delay \<and>
                    int_of_num delay = Inr retry \<and>
                    retry_after result = Some retry) \<and>
                 after = cs2
            else allowed result \<and>
                 (\<exists>left. py_sub rnd refilled (PyInt 1) = Inr left \<and>
                    int_of_num left = Inr (remaining result) \<and>
                    (error_log after = error_log cs1 \<longrightarrow>
                       contents after ?key =
                         Some \<lparr>entry_value = BucketV left ?ct,
                               expires_at = now + of_int (window rate_limit * 2)\<rparr>)))"
  proof (cases "py_lt refilled (PyInt 1)")
    case True
    have u: "check_token_bucket_float rnd f now cache_key rate_limit cs =
        (case retry_delay rnd refilled rate_limit of
           Inl e \<Rightarrow> (Inl e, cs2)
         | Inr retry \<Rightarrow>
             (case reset_at rnd ?ct retry of
                Inl e \<Rightarrow> (Inl e, cs2)
              | Inr reset \<Rightarrow>
                  (Inr \<lparr>allowed = False, remaining = 0, reset_time = reset,
                        retry_after = Some retry\<rparr>, cs2)))"
      using True unfolding refilled_def cs2_def
      by (simp add: check_token_bucket_float_def Let_def got d fs ta tp)
    from run u obtain retry where rd: "retry_delay rnd refilled rate_limit = Inr retry"
      by (cases "retry_delay rnd refilled rate_limit") simp_all
    from run u rd obtain reset where rs: "reset_at rnd ?ct retry = Inr reset"
      by (cases "reset_at rnd ?ct retry") simp_all
    from run u rd rs have res: "\<not> allowed result" "retry_after result = Some retry" "after = cs2"
      by auto
    from rd obtain missing per_token delay where
      "py_sub rnd (PyInt 1) refilled = Inr missing"
      "true_div rnd (window rate_limit) (requests rate_limit) = Inr per_token"
      "py_mul rnd missing (PyFloat per_token) = Inr delay"
      "int_of_num delay = Inr retry"
      by (auto simp: retry_delay_def split: sum.splits)
    with res True show ?thesis by auto
  next
    case False
    define cs3 where "cs3 = (\<lambda>left. update_in_place ?key (BucketV left ?ct) cs2)"
    obtain left where lf: "py_sub rnd refilled (PyInt 1) = Inr left"
      using run False unfolding refilled_def
      by (cases "py_sub rnd (py_min (PyInt (max_tokens rate_limit)) topped) (PyInt 1)")
         (simp_all add: check_token_bucket_float_def Let_def got d fs ta tp)
    have u: "check_token_bucket_float rnd f now cache_key rate_limit cs =
        (case CacheService_set (write_fails f) now ?key (BucketV left ?ct)
                (window rate_limit * 2) (cs3 left) of
           (ok, cs4) \<Rightarrow>
             (case int_of_num left of
                Inl e \<Rightarrow> (Inl e, cs4)
              | Inr whole \<Rightarrow>
                  (case reset_at rnd ?ct (window rate_limit) of
                     Inl e \<Rightarrow> (Inl e, cs4)
                   | Inr reset \<Rightarrow>
                       (Inr \<lparr>allowed = True, remaining = whole, reset_time = reset,
                             retry_after = None\<rparr>, cs4))))"
      using False lf unfolding refilled_def cs2_def cs3_def
      by (simp add: check_token_bucket_float_def Let_def got d fs ta tp)
    obtain ok cs4 where st: "CacheService_set (write_fails f) now ?key (BucketV left ?ct)
        (window rate_limit * 2) (cs3 left) = (ok, cs4)"
      by fastforce
    from run u lf st obtain whole where wh: "int_of_num left = Inr whole"
      by (cases "int_of_num left") simp_all
    from run u lf st wh obtain reset where rs: "reset_at rnd ?ct (window rate_limit) = Inr reset"
      by (cases "reset_at rnd ?ct (window rate_limit)") simp_all
    from run u lf st wh rs have res: "allowed result" "remaining result = whole" "after = cs4"
      by auto
    have e3: "error_log (cs3 left) = error_log cs1"
      by (simp add: cs3_def cs2_def update_in_place_log)
    have "contents after ?key =
        Some \<lparr>entry_value = BucketV left ?ct, expires_at = now + of_int (window rate_limit * 2)\<rparr>"
      if "error_log after = error_log cs1"
      using set_stored[OF st] that res e3 by simp
    with res lf wh False show ?thesis by auto
  qed
  with el ra pr ad tp show ?thesis
    unfolding refilled_def cs2_def Let_def by blast
qed


text \<open>
  Two checks with the rounding of the doubles, on the in-memory backend. One request
  per 49 seconds, an empty bucket last refilled at second 0, a check at second 49: the
  product \<open>49.0 * (1 / 49)\<close> is \<open>1 - 1 / 2 ^ 53\<close>, no token is added, and the check
  denies with \<open>retry_after = 49\<close>. One request per 2 seconds with a burst of 10, an
  empty bucket last refilled at second 0, a check at second 3: one token is added and
  taken, and the store holds the bucket \<open>{0, 3}\<close> until second 7.
\<close>

theorem token_bucket_refill_truncates_witness:
  "CacheService_get (get_fails no_faults) 49 (''rate_limit:api:user:alice'' @ '':bucket'')
       (store_with InMemoryCache ''rate_limit:api:user:alice:bucket''
          (BucketV (PyInt 0) (PyFloat (Finite 0))) 98) =
     (Some (BucketV (PyInt 0) (PyFloat (Finite 0))),
      store_with InMemoryCache ''rate_limit:api:user:alice:bucket''
          (BucketV (PyInt 0) (PyFloat (Finite 0))) 98) \<and>
   check_token_bucket_float binary64 no_faults 49 ''rate_limit:api:user:alice''
       (bucket_limit 1 49 None)
       (store_with InMemoryCache ''rate_limit:api:user:alice:bucket''
          (BucketV (PyInt 0) (PyFloat (Finite 0))) 98) =
     (Inr \<lparr>allowed = False, remaining = 0, reset_time = 98, retry_after = Some 49\<rparr>,
      store_with InMemoryCache ''rate_limit:api:user:alice:bucket''
          (BucketV (PyInt 0) (PyFloat (Finite 49))) 98) \<and>
   true_div binary64 (requests (bucket_limit 1 49 None)) (window (bucket_limit 1 49 None)) =
     Inr (Finite (5882252574524729 / 2 ^ 58)) \<and>
   py_mul binary64 (PyFloat (Finite 49)) (PyFloat (Finite (5882252574524729 / 2 ^ 58))) =
     Inr (PyFloat (Finite (1 - 1 / 2 ^ 53))) \<and>
   int_of_num (PyFloat (Finite (1 - 1 / 2 ^ 53))) = Inr 0 \<and>
   (\<exists>added topped.
      tokens_to_add binary64 (PyFloat (Finite 49)) (PyFloat (Finite 0)) (bucket_limit 1 49 None) =
        Inr added \<and>
      py_add binary64 (PyInt 0) (PyInt added) = Inr topped \<and>
      py_lt (py_min (PyInt (max_tokens (bucket_limit 1 49 None))) topped) (PyInt 1)) \<and>
   CacheService_get (get_fails no_faults) 3 (''rate_limit:api:user:alice'' @ '':bucket'')
       (store_with InMemoryCache ''rate_limit:api:user:alice:bucket''
          (BucketV (PyInt 0) (PyFloat (Finite 0))) 4) =
     (Some (BucketV (PyInt 0) (PyFloat (Finite 0))),
      store_with InMemoryCache ''rate_limit:api:user:alice:bucket''
          (BucketV (PyInt 0) (PyFloat (Finite 0))) 4) \<and>
   check_token_bucket_float binary64 no_faults 3 ''rate_limit:api:user:alice''
       (bucket_limit 1 2 (Some 10))
       (store_with InMemoryCache ''rate_limit:api:user:alice:bucket''
          (BucketV (PyInt 0) (PyFloat (Finite 0))) 4) =
     (Inr \<lparr>allowed = True, remaining = 0, reset_time = 5, retry_after = None\<rparr>,
      store_with InMemoryCache ''rate_limit:api:user:alice:bucket''
          (BucketV (PyInt 0) (PyFloat (Finite 3))) 7) \<and>
   (\<exists>left.
      int_of_num left = Inr 0 \<and>
      contents (store_with InMemoryCache ''rate_limit:api:user:alice:bucket''
                  (BucketV (PyInt 0) (PyFloat (Finite 3))) 7)
        (''rate_limit:api:user:alice'' @ '':bucket'') =
        Some \<lparr>entry_value = BucketV left (PyFloat (Finite 3)),
              expires_at = 3 + of_int (window (bucket_limit 1 2 (Some 10)) * 2)\<rparr>)"
proof -
  let ?k = "''rate_limit:api:user:alice''"
  let ?s = "store_with InMemoryCache ''rate_limit:api:user:alice:bucket''
              (BucketV (PyInt 0) (PyFloat (Finite 0))) 98"
  let ?t = "store_with InMemoryCache ''rate_limit:api:user:alice:bucket''
              (BucketV (PyInt 0) (PyFloat (Finite 49))) 98"
  let ?rl = "bucket_limit 1 49 None"
  let ?r = "\<lparr>allowed = False, remaining = 0, reset_time = 98, retry_after = Some 49\<rparr>"
  have g: "CacheService_get (get_fails no_faults) 49 (?k @ '':bucket'') ?s =
      (Some (BucketV (PyInt 0) (PyFloat (Finite 0))), ?s)"
    by (simp add: CacheService_get_def InMemoryCache_get_def store_with_def)
  have d: "check_token_bucket_float binary64 no_faults 49 ?k ?rl ?s = (Inr ?r, ?t)"
    by (simp add: float_bucket_eval store_with_def no_faults_def)
  have q: "true_div binary64 (requests ?rl) (window ?rl) =
      Inr (Finite (5882252574524729 / 2 ^ 58))"
    by (simp add: true_div_def bucket_limit_def binary64_values)
  have p: "py_mul binary64 (PyFloat (Finite 49)) (PyFloat (Finite (5882252574524729 / 2 ^ 58))) =
      Inr (PyFloat (Finite (1 - 1 / 2 ^ 53)))"
    by (simp add: float_op_def binary64_values)
  have i: "int_of_num (PyFloat (Finite (1 - 1 / 2 ^ 53))) = Inr 0"
    by (simp add: py_int_def)
  from token_bucket_refill_truncates [OF g d]
  obtain elapsed rate product added topped where
    c: "py_sub binary64 (PyFloat (Finite 49)) (PyFloat (Finite 0)) = Inr elapsed"
      "true_div binary64 (requests ?rl) (window ?rl) = Inr rate"
      "py_mul binary64 elapsed (PyFloat rate) = Inr product"
      "int_of_num product = Inr added"
      "py_add binary64 (PyInt 0) (PyInt added) = Inr topped"
    and b: "if py_lt (py_min (PyInt (max_tokens ?rl)) topped) (PyInt 1)
            then \<not> allowed ?r else allowed ?r"
    unfolding Let_def by (auto split: if_splits)
  from b have lt: "py_lt (py_min (PyInt (max_tokens ?rl)) topped) (PyInt 1)"
    by (simp split: if_splits)
  from c have "tokens_to_add binary64 (PyFloat (Finite 49)) (PyFloat (Finite 0)) ?rl = Inr added"
    by (simp add: tokens_to_add_def)
  with c lt have "\<exists>added topped.
      tokens_to_add binary64 (PyFloat (Finite 49)) (PyFloat (Finite 0)) ?rl = Inr added \<and>
      py_add binary64 (PyInt 0) (PyInt added) = Inr topped \<and>
      py_lt (py_min (PyInt (max_tokens ?rl)) topped) (PyInt 1)"
    by blast
  then have deny: "\<exists>added topped.
      tokens_to_add binary64 (PyFloat (Finite 49)) (PyFloat (Finite 0)) ?rl = Inr added \<and>
      py_add binary64 (PyInt 0) (PyInt added) = Inr topped \<and>
      py_lt (py_min (PyInt (max_tokens ?rl)) topped) (PyInt 1)" .
  let ?s' = "store_with InMemoryCache ''rate_limit:api:user:alice:bucket''
              (BucketV (PyInt 0) (PyFloat (Finite 0))) 4"
  let ?t' = "store_with InMemoryCache ''rate_limit:api:user:alice:bucket''
              (BucketV (PyInt 0) (PyFloat (Finite 3))) 7"
  let ?rl' = "bucket_limit 1 2 (Some 10)"
  let ?r' = "\<lparr>allowed = True, remaining = 0, reset_time = 5, retry_after = None\<rparr>"
  have g': "CacheService_get (get_fails no_faults) 3 (?k @ '':bucket'') ?s' =
      (Some (BucketV (PyInt 0) (PyFloat (Finite 0))), ?s')"
    by (simp add: CacheService_get_def InMemoryCache_get_def store_with_def)
  have d': "check_token_bucket_float binary64 no_faults 3 ?k ?rl' ?s' = (Inr ?r', ?t')"
    by (simp add: float_bucket_eval store_with_def no_faults_def)
  have l': "error_log ?t' = error_log ?s'"
    by (simp add: store_with_def)
  from token_bucket_refill_truncates [OF g' d']
  have "\<exists>left. int_of_num left = Inr (remaining ?r') \<and>
                 (error_log ?t' = error_log ?s' \<longrightarrow>
                    contents ?t' (?k @ '':bucket'') =
                      Some \<lparr>entry_value = BucketV left (PyFloat (Finite 3)),
                            expires_at = 3 + of_int (window ?rl' * 2)\<rparr>)"
    unfolding Let_def by (fastforce split: if_splits)
  with l' have allow: "\<exists>left. int_of_num left = Inr 0 \<and>
      contents ?t' (?k @ '':bucket'') =
        Some \<lparr>entry_value = BucketV left (PyFloat (Finite 3)),
              expires_at = 3 + of_int (window ?rl' * 2)\<rparr>"
    by auto
  from g d q p i deny g' d' allow show ?thesis by blast
qed

lemma ceiling_half: "\<lceil>1 / 2 :: real\<rceil> = 1"
  by (rule ceiling_unique) simp_all

text \<open>
  C3, as the specification states it, fails twice, here with the rounding of the
  doubles. With 1 request per 2 seconds and a burst of 10, a check at second 0 empties
  the bucket; at second 3 the exact refill is 1.5 tokens, which leaves 0.5 after the
  check, and the code stores 0. With 2 requests per 1 second, the third check at
  second 10 is denied with \<open>retry_after = 0\<close>, where \<open>ceil((1 - 0) / 2)\<close> is 1.
\<close>

theorem exact_refill_counterexample:
  "contents (snd (bucket_many_float binary64 no_faults [0, 3] ''rate_limit:api:user:alice''
                    (bucket_limit 1 2 (Some 10)) empty_store))
     ''rate_limit:api:user:alice:bucket'' =
     Some \<lparr>entry_value = BucketV (PyInt 0) (PyFloat (Finite 3)), expires_at = 7\<rparr> \<and>
   min 10 (0 + spec_tokens_added (3 - 0) (bucket_limit 1 2 (Some 10))) - 1 = 1 / 2 \<and>
   fst (bucket_many_float binary64 no_faults [10, 10, 10] ''rate_limit:api:user:alice''
          (bucket_limit 2 1 None) empty_store) =
     [Inr \<lparr>allowed = True, remaining = 1, reset_time = 11, retry_after = None\<rparr>,
      Inr \<lparr>allowed = True, remaining = 0, reset_time = 11, retry_after = None\<rparr>,
      Inr \<lparr>allowed = False, remaining = 0, reset_time = 10, retry_after = Some 0\<rparr>] \<and>
   spec_retry_after 0 (bucket_limit 2 1 None) = 1"
  by (simp add: float_bucket_eval empty_store_def no_faults_def spec_tokens_added_def
        spec_retry_after_def ceiling_half)


subsection \<open>The sliding window enforces its limit\<close>

text \<open>
  The sliding window keeps its timestamps under one key for reading and writing. On
  the in-memory backend, starting from an empty store, with checks that lie within one
  window of each other (in real time, for the expiry, and in whole seconds, for the
  filter) and whose expiry dates stay within the years 1 to 9999, check number \<open>i\<close>, counted from 0, is allowed exactly when \<open>i < limit\<close>: the
  first \<open>limit\<close> checks are allowed and every later one is denied.
\<close>

lemma sliding_step_in_window:
  assumes mem: "current_cache cs = InMemoryCache"
    and st: "contents cs (key @ '':timestamps'') = Some \<lparr>entry_value = ListV xs, expires_at = e\<rparr>"
    and live: "now < e"
    and recent: "\<forall>x\<in>set xs. py_int now - window rl < x"
    and ne: "xs \<noteq> []"
    and range: "datetime_min \<le> now + of_int (window rl) \<and>
                now + of_int (window rl) < datetime_end"
  shows "check_sliding_window f now key rl cs =
     (if requests rl \<le> int (length xs)
      then (Inr \<lparr>allowed = False, remaining = 0, reset_time = min_list xs + window rl,
                 retry_after = Some (max 1 (min_list xs + window rl - py_int now))\<rparr>, cs)
      else (Inr \<lparr>allowed = True, remaining = requests rl - int (length (xs @ [py_int now])),
                 reset_time = py_int now + window rl, retry_after = None\<rparr>,
            cs\<lparr>contents := (contents cs)(key @ '':timestamps'' \<mapsto>
                  \<lparr>entry_value = ListV (xs @ [py_int now]),
                   expires_at = now + of_int (window rl)\<rparr>)\<rparr>))"
proof -
  have g: "CacheService_get (get_fails f) now (key @ '':timestamps'') cs = (Some (ListV xs), cs)"
    using mem st live by (simp add: CacheService_get_def InMemoryCache_get_def)
  have d: "or_default (Some (ListV xs)) (ListV []) = ListV xs"
    using ne by (simp add: or_default_def)
  have fl: "filter (\<lambda>ts. py_int now - window rl < ts) xs = xs"
    using recent by (simp add: filter_id_conv)
  show ?thesis
    using mem ne range
    by (simp add: check_sliding_window_def Let_def g d fl CacheService_set_def
        InMemoryCache_set_def)
qed

lemma sliding_first_check:
  assumes pos: "0 < requests rl"
    and range: "datetime_min \<le> now + of_int (window rl) \<and>
                now + of_int (window rl) < datetime_end"
  shows "check_sliding_window f now key rl empty_store =
     (Inr \<lparr>allowed = True, remaining = requests rl - 1,
           reset_time = py_int now + window rl, retry_after = None\<rparr>,
      empty_store\<lparr>contents := (contents empty_store)(key @ '':timestamps'' \<mapsto>
            \<lparr>entry_value = ListV [py_int now], expires_at = now + of_int (window rl)\<rparr>)\<rparr>)"
  using pos range
  by (simp add: check_sliding_window_def Let_def CacheService_get_def InMemoryCache_get_def
      CacheService_set_def InMemoryCache_set_def or_default_def empty_store_def)


lemma allowed_flags_Cons:
  "map (\<lambda>i. (n + int i < r)) [0..<Suc k] =
     (n < r) # map (\<lambda>i. (n + 1 + int i < r)) [0..<k]"
proof -
  have "map (\<lambda>i. (n + int i < r)) [0..<Suc k] =
      (n + int 0 < r) # map (\<lambda>i. (n + int (Suc i) < r)) [0..<k]"
    by (rule map_upt_Suc)
  also have "\<dots> = (n < r) # map (\<lambda>i. (n + 1 + int i < r)) [0..<k]"
    by (simp add: add.assoc)
  finally show ?thesis .
qed

lemma allowed_flags_full:
  assumes "r \<le> n"
  shows "map (\<lambda>i. (n + 1 + int i < r)) [0..<k] = map (\<lambda>i. (n + int i < (r::int))) [0..<k]"
  using assms by simp

lemma sliding_run:
  assumes s: "strategy rl = SLIDING_WINDOW"
    and mem: "current_cache cs = InMemoryCache"
    and st: "contents cs (key @ '':timestamps'') = Some \<lparr>entry_value = ListV xs, expires_at = e\<rparr>"
    and ne: "xs \<noteq> []"
    and live: "\<forall>t\<in>set ts. t < e"
    and recent: "\<forall>t\<in>set ts. \<forall>x\<in>set xs. py_int t - window rl < x"
    and close: "\<forall>t\<in>set ts. \<forall>u\<in>set ts.
                  u < t + of_int (window rl) \<and> py_int u - window rl < py_int t"
    and range: "\<forall>t\<in>set ts. datetime_min \<le> t + of_int (window rl) \<and>
                  t + of_int (window rl) < datetime_end"
  shows "map is_allowed (fst (strategy_many f ts key rl cs)) =
           map (\<lambda>i. (int (length xs) + int i < requests rl)) [0..<length ts]"
  using mem st ne live recent close range
proof (induction ts arbitrary: cs xs e)
  case Nil
  show ?case by simp
next
  case (Cons t ts)
  let ?k = "key @ '':timestamps''"
  have t_live: "t < e" and t_recent: "\<forall>x\<in>set xs. py_int t - window rl < x"
    using Cons.prems by simp_all
  have t_range: "datetime_min \<le> t + of_int (window rl) \<and>
      t + of_int (window rl) < datetime_end"
    using Cons.prems(7) by simp
  have rest_range: "\<forall>a\<in>set ts. datetime_min \<le> a + of_int (window rl) \<and>
      a + of_int (window rl) < datetime_end"
    using Cons.prems(7) by simp
  note step = sliding_step_in_window[OF Cons.prems(1) Cons.prems(2) t_live t_recent Cons.prems(3)
      t_range, of f]
  have rest_close: "\<forall>a\<in>set ts. \<forall>u\<in>set ts.
      u < a + of_int (window rl) \<and> py_int u - window rl < py_int a"
    using Cons.prems(6) by simp
  show ?case
  proof (cases "requests rl \<le> int (length xs)")
    case True
    have l0: "\<forall>u\<in>set ts. u < e"
      using Cons.prems(4) by simp
    have r0: "\<forall>u\<in>set ts. \<forall>x\<in>set xs. py_int u - window rl < x"
      using Cons.prems(5) by simp
    note ih = Cons.IH[OF Cons.prems(1) Cons.prems(2) Cons.prems(3) l0 r0 rest_close rest_range]
    have "map is_allowed (fst (strategy_many f (t # ts) key rl cs)) =
        False # map is_allowed (fst (strategy_many f ts key rl cs))"
      using True step s by (simp add: check_strategy_def is_allowed_def split: prod.splits)
    also have "\<dots> = (int (length xs) < requests rl) #
        map (\<lambda>i. (int (length xs) + 1 + int i < requests rl)) [0..<length ts]"
      using True ih by simp
    finally show ?thesis
      by (simp only: allowed_flags_Cons length_Cons)
  next
    case False
    let ?cs = "cs\<lparr>contents := (contents cs)(?k \<mapsto>
        \<lparr>entry_value = ListV (xs @ [py_int t]), expires_at = t + of_int (window rl)\<rparr>)\<rparr>"
    have m: "current_cache ?cs = InMemoryCache"
      using Cons.prems(1) by simp
    have c: "contents ?cs ?k =
        Some \<lparr>entry_value = ListV (xs @ [py_int t]), expires_at = t + of_int (window rl)\<rparr>"
      by simp
    have n: "xs @ [py_int t] \<noteq> []" by simp
    have l: "\<forall>u\<in>set ts. u < t + of_int (window rl)"
      using Cons.prems(6) by simp
    have r: "\<forall>u\<in>set ts. \<forall>x\<in>set (xs @ [py_int t]). py_int u - window rl < x"
      using Cons.prems(5) Cons.prems(6) by auto
    have ih: "map is_allowed (fst (strategy_many f ts key rl ?cs)) =
        map (\<lambda>i. (int (length xs) + 1 + int i < requests rl)) [0..<length ts]"
      using Cons.IH[OF m c n l r rest_close rest_range]
      by (simp add: add.commute add.left_commute)
    have "map is_allowed (fst (strategy_many f (t # ts) key rl cs)) =
        True # map is_allowed (fst (strategy_many f ts key rl ?cs))"
      using False step s by (simp add: check_strategy_def is_allowed_def split: prod.splits)
    also have "\<dots> = (int (length xs) < requests rl) #
        map (\<lambda>i. (int (length xs) + 1 + int i < requests rl)) [0..<length ts]"
      using False ih by simp
    finally show ?thesis
      by (simp only: allowed_flags_Cons length_Cons)
  qed
qed


lemma sliding_window_enforces_limit:
  assumes s: "strategy rl = SLIDING_WINDOW" and pos: "0 < requests rl"
    and close: "\<forall>t\<in>set (t0 # ts). \<forall>u\<in>set (t0 # ts).
                  u < t + of_int (window rl) \<and> py_int u - window rl < py_int t"
    and range: "\<forall>t\<in>set (t0 # ts). datetime_min \<le> t + of_int (window rl) \<and>
                  t + of_int (window rl) < datetime_end"
  shows "map is_allowed (fst (strategy_many f (t0 # ts) key rl empty_store)) =
           map (\<lambda>i. int i < requests rl) [0..<Suc (length ts)]"
proof -
  let ?k = "key @ '':timestamps''"
  let ?cs = "empty_store\<lparr>contents := (contents empty_store)(?k \<mapsto>
        \<lparr>entry_value = ListV [py_int t0], expires_at = t0 + of_int (window rl)\<rparr>)\<rparr>"
  have m: "current_cache ?cs = InMemoryCache"
    by (simp add: empty_store_def)
  have c: "contents ?cs ?k =
      Some \<lparr>entry_value = ListV [py_int t0], expires_at = t0 + of_int (window rl)\<rparr>"
    by simp
  have n: "[py_int t0] \<noteq> []" by simp
  have l: "\<forall>u\<in>set ts. u < t0 + of_int (window rl)"
    using close by simp
  have r: "\<forall>u\<in>set ts. \<forall>x\<in>set [py_int t0]. py_int u - window rl < x"
    using close by simp
  have rest: "\<forall>t\<in>set ts. \<forall>u\<in>set ts.
      u < t + of_int (window rl) \<and> py_int u - window rl < py_int t"
    using close by simp
  have first_range: "datetime_min \<le> t0 + of_int (window rl) \<and>
      t0 + of_int (window rl) < datetime_end"
    using range by simp
  have rest_range: "\<forall>t\<in>set ts. datetime_min \<le> t + of_int (window rl) \<and>
      t + of_int (window rl) < datetime_end"
    using range by simp
  have run: "map is_allowed (fst (strategy_many f ts key rl ?cs)) =
      map (\<lambda>i. 0 + 1 + int i < requests rl) [0..<length ts]"
    using sliding_run[OF s m c n l r rest rest_range, of f] by (simp add: add.commute)
  have "map is_allowed (fst (strategy_many f (t0 # ts) key rl empty_store)) =
      True # map is_allowed (fst (strategy_many f ts key rl ?cs))"
    using s sliding_first_check[OF pos first_range, of f key]
    by (simp add: check_strategy_def is_allowed_def split: prod.splits)
  also have "\<dots> = (0 < requests rl) # map (\<lambda>i. 0 + 1 + int i < requests rl) [0..<length ts]"
    using pos run by simp
  also have "\<dots> = map (\<lambda>i. 0 + int i < requests rl) [0..<Suc (length ts)]"
    by (simp only: allowed_flags_Cons)
  finally show ?thesis by simp
qed

lemma sliding_window_example:
  "map is_allowed (fst (strategy_many no_faults [1000, 1001, 1030, 1059]
       ''rate_limit:api:user:alice'' (sliding_limit 3 60) empty_store)) =
     [True, True, True, False]"
proof -
  have s: "strategy (sliding_limit 3 60) = SLIDING_WINDOW"
    and p: "0 < requests (sliding_limit 3 60)"
    by (simp_all add: sliding_limit_def)
  have c: "\<forall>t\<in>set (1000 # [1001, 1030, 1059 :: real]).
      \<forall>u\<in>set (1000 # [1001, 1030, 1059]).
        u < t + of_int (window (sliding_limit 3 60)) \<and>
        py_int u - window (sliding_limit 3 60) < py_int t"
    by (simp add: sliding_limit_def py_int_def)
  have r: "\<forall>t\<in>set (1000 # [1001, 1030, 1059 :: real]).
      datetime_min \<le> t + of_int (window (sliding_limit 3 60)) \<and>
      t + of_int (window (sliding_limit 3 60)) < datetime_end"
    by (simp add: sliding_limit_def datetime_min_def datetime_end_def)
  have "map (\<lambda>i. int i < requests (sliding_limit 3 60)) [0..<Suc (length [1001, 1030, 1059 :: real])]
      = [True, True, True, False]"
    by (simp add: sliding_limit_def upt_rec)
  with sliding_window_enforces_limit[OF s p c r, of no_faults "''rate_limit:api:user:alice''"]
  show ?thesis by simp
qed

subsection \<open>A denial of an unknown class reached through the limiter\<close>

text \<open>
  The denied request of the class \<open>reports\<close> shown above meets a store whose counter
  was written beforehand. A denial of a class outside the tables can also be reached from
  an empty store through the limiter alone: the fixed window writes its counter under
  the doubled prefix, and that key is the one the class named \<open>rate_limit\<close> reads for
  an identifier that starts with \<open>ip:ip:\<close>. After 1000 checks of the class \<open>ip\<close> for
  \<open>ip:10.0.0.7\<close>, a request of the class \<open>rate_limit\<close> whose forwarded address is
  \<open>ip:10.0.0.7\<close> is denied, and the dependency raises \<^verbatim>\<open>KeyError\<close>.
\<close>

lemma ip_class_step:
  "check_rate_limit no_faults 1000 ''ip:10.0.0.7'' ''ip'' False
     (store_with InMemoryCache ''rate_limit:rate_limit:ip:ip:10.0.0.7:0'' (IntV k) 4600) =
   (Inr \<lparr>allowed = True, remaining = max 0 (1000 - (k + 1)), reset_time = 3600,
         retry_after = None\<rparr>,
    store_with InMemoryCache ''rate_limit:rate_limit:ip:ip:10.0.0.7:0'' (IntV (k + 1)) 4600)"
  by (simp add: fixed_window_eval str_int_0 store_with_def no_faults_def)

lemma ip_class_first:
  "check_rate_limit no_faults 1000 ''ip:10.0.0.7'' ''ip'' False empty_store =
   (Inr \<lparr>allowed = True, remaining = 999, reset_time = 3600, retry_after = None\<rparr>,
    store_with InMemoryCache ''rate_limit:rate_limit:ip:ip:10.0.0.7:0'' (IntV 1) 4600)"
  by (simp add: fixed_window_eval str_int_0 store_with_def empty_store_def no_faults_def)

lemma ip_class_run:
  "snd (check_many no_faults (replicate n 1000) ''ip:10.0.0.7'' ''ip'' False
     (store_with InMemoryCache ''rate_limit:rate_limit:ip:ip:10.0.0.7:0'' (IntV k) 4600)) =
   store_with InMemoryCache ''rate_limit:rate_limit:ip:ip:10.0.0.7:0'' (IntV (k + int n)) 4600"
proof (induction n arbitrary: k)
  case 0
  show ?case by simp
next
  case (Suc n)
  have "k + 1 + int n = k + int (Suc n)" by simp
  with Suc[of "k + 1"] show ?case
    by (simp add: ip_class_step case_prod_beta)
qed

lemma unknown_class_denial_reachable:
  "rate_limit_dependency no_faults 1000 nested_request ''rate_limit'' None False
     (snd (check_many no_faults (replicate 1000 1000) ''ip:10.0.0.7'' ''ip'' False empty_store)) =
   (Inl (PyError KeyError),
    store_with InMemoryCache ''rate_limit:rate_limit:ip:ip:10.0.0.7:0'' (IntV 1000) 4600)"
proof -
  have "replicate 1000 (1000 :: real) = 1000 # replicate 999 1000"
    by (simp add: replicate_Suc[symmetric] del: replicate_Suc)
  then have "snd (check_many no_faults (replicate 1000 1000) ''ip:10.0.0.7'' ''ip'' False
      empty_store) =
      store_with InMemoryCache ''rate_limit:rate_limit:ip:ip:10.0.0.7:0'' (IntV (1 + int 999)) 4600"
    by (simp add: ip_class_first ip_class_run case_prod_beta)
  moreover have "get_identifier_from_request nested_request None = ''ip:ip:10.0.0.7''"
    by (simp add: get_identifier_from_request_def when_truthy_def nested_request_def strip_def
          first_field_def is_space_def)
  ultimately show ?thesis
    by (simp add: rate_limit_dependency_def fixed_window_eval str_int_0 store_with_def
          no_faults_def)
qed

end
